theory Spec2Isabelle
  imports Complex_Main
begin

section \<open>Knowledge-graph link generator: the generate-links route\<close>

text \<open>
  A shallow embedding of the route handler that builds the knowledge graph
  (\<^verbatim>\<open>extractKeywords\<close>, \<^verbatim>\<open>calculateSimilarity\<close> and \<^verbatim>\<open>POST\<close>).

  Conventions of the embedding.
  \<^item> A JavaScript string is the list of its code units; the embedding covers the
    strings whose code units are below 256 (Latin-1), one \<^typ>\<open>char\<close> each.
  \<^item> A JavaScript number is a rational. The quotient of two array lengths and
    the sum with the category boost are kept exact; where a number decides a
    branch it is the double, rounded to nearest: the similarity in the test
    against the threshold, and every number literal of a request body.
  \<^item> A \<^verbatim>\<open>Set\<close> is the list of its elements in insertion order.
  \<^item> A thrown exception is the left summand of a sum type.
\<close>

subsection \<open>Numbers\<close>

text \<open>The double nearest to a rational, as a rational: the binary exponent of the
  value (not below that of the smallest normal double), the quantum of the 53-bit
  significand at that exponent, and the multiple of the quantum nearest to the
  value, the even one when two are equally near. The exponent is not bounded
  above here; \<open>doubleOperand\<close> turns the results that do not fit into the
  infinities.\<close>

function bitLength :: "int \<Rightarrow> int" where
  "bitLength k = (if k \<le> 0 then 0 else 1 + bitLength (k div 2))"
  by pat_completeness auto
termination
  by (relation "measure nat") auto

declare bitLength.simps [simp del]

definition pow2 :: "int \<Rightarrow> rat" where
  "pow2 k = (if 0 \<le> k then 2 ^ nat k else 1 / 2 ^ nat (- k))"

definition roundHalfEven :: "rat \<Rightarrow> int" where
  "roundHalfEven m =
     (let f = \<lfloor>m\<rfloor>; d = m - of_int f
      in if d < 1 / 2 then f
         else if 1 / 2 < d then f + 1
         else if even f then f else f + 1)"

text \<open>\<open>binaryExponent r\<close> is the \<open>e\<close> with \<open>2 ^ e \<le> r < 2 ^ (e + 1)\<close>, for a positive \<open>r\<close>:
  the difference of the bit lengths of numerator and denominator, or one less.\<close>

definition binaryExponent :: "rat \<Rightarrow> int" where
  "binaryExponent r =
     (let (p, q) = quotient_of r;
          e0 = bitLength p - bitLength q
      in if pow2 e0 \<le> r then e0 else e0 - 1)"

definition nearestPositive :: "rat \<Rightarrow> rat" where
  "nearestPositive r =
     (let quantum = pow2 (max (binaryExponent r) (- 1022) - 52)
      in of_int (roundHalfEven (r / quantum)) * quantum)"

definition nearestDouble :: "rat \<Rightarrow> rat" where
  "nearestDouble r =
     (if r = 0 then 0 else if 0 < r then nearestPositive r else - nearestPositive (- r))"

text \<open>A number literal as the right operand of \<^verbatim>\<open>>=\<close> against a finite number: the
  double nearest to it; \<open>None\<close> when that is \<^verbatim>\<open>Infinity\<close>, against which the
  comparison is false as it is against \<^verbatim>\<open>NaN\<close>; and \<open>- 2 ^ 1024\<close>, below every
  finite double, when it is \<^verbatim>\<open>-Infinity\<close>.\<close>

definition doubleOperand :: "rat \<Rightarrow> rat option" where
  "doubleOperand r =
     (let d = nearestDouble r
      in if d = 0 then Some 0
         else if 1024 \<le> binaryExponent \<bar>d\<bar>
         then (if 0 < d then None else Some (- pow2 1024))
         else Some d)"

subsection \<open>JSON values\<close>

datatype json =
    JNull
  | JBool bool
  | JNum rat
  | JStr string
  | JArr "json list"
  | JObj "(string \<times> json) list"

text \<open>An object is the list of its own properties, each key once.\<close>

datatype db_error = DbError (message: "string option") (instanceofError: bool)

datatype exn = TypeError string | Thrown db_error

text \<open>\<^verbatim>\<open>v?.name\<close>: \<^verbatim>\<open>undefined\<close> (here \<open>None\<close>) on \<^verbatim>\<open>null\<close>, on a primitive and on
  an array, the property's value on an object.\<close>

fun optProp :: "json \<Rightarrow> string \<Rightarrow> json option" where
  "optProp (JObj kvs) name = map_of kvs name"
| "optProp _ name = None"

text \<open>JavaScript truthiness of a JSON value; a number literal that the parser
  rounds to zero is falsy.\<close>

fun truthy :: "json \<Rightarrow> bool" where
  "truthy JNull = False"
| "truthy (JBool b) = b"
| "truthy (JNum n) = (nearestDouble n \<noteq> 0)"
| "truthy (JStr s) = (s \<noteq> [])"
| "truthy (JArr xs) = True"
| "truthy (JObj kvs) = True"

fun isArray :: "json \<Rightarrow> bool" where
  "isArray (JArr xs) = True"
| "isArray _ = False"

subsection \<open>Strings\<close>

definition code :: "char \<Rightarrow> nat" where
  "code c = of_char c"

text \<open>\<^verbatim>\<open>toLowerCase\<close> on Latin-1: A-Z and the capital letters U+00C0..U+00DE
  (without the multiplication sign U+00D7) move up by 32.\<close>

definition lowerChar :: "char \<Rightarrow> char" where
  "lowerChar c =
     (let n = code c in
      if (65 \<le> n \<and> n \<le> 90) \<or> (192 \<le> n \<and> n \<le> 222 \<and> n \<noteq> 215)
      then char_of (n + 32) else c)"

definition toLowerCase :: "string \<Rightarrow> string" where
  "toLowerCase s = map lowerChar s"

text \<open>The class \<^verbatim>\<open>\w\<close>: ASCII letters, ASCII digits and the underscore.\<close>

definition isWordChar :: "char \<Rightarrow> bool" where
  "isWordChar c =
     (let n = code c in
      (97 \<le> n \<and> n \<le> 122) \<or> (65 \<le> n \<and> n \<le> 90) \<or> (48 \<le> n \<and> n \<le> 57) \<or> n = 95)"

text \<open>The class \<^verbatim>\<open>\s\<close> below 256: tab, line feed, vertical tab, form feed,
  carriage return, space, no-break space.\<close>

definition isSpaceChar :: "char \<Rightarrow> bool" where
  "isSpaceChar c = (let n = code c in (9 \<le> n \<and> n \<le> 13) \<or> n = 32 \<or> n = 160)"

text \<open>\<^verbatim>\<open>.replace(/[^\w\s]/g, ' ')\<close>\<close>

definition replacePunctuation :: "string \<Rightarrow> string" where
  "replacePunctuation s =
     map (\<lambda>c. if \<not> isWordChar c \<and> \<not> isSpaceChar c then CHR '' '' else c) s"

text \<open>\<^verbatim>\<open>.split(/\s+/)\<close>: the pieces between maximal runs of white space; a run at
  the start or the end of the string leaves an empty piece there, and the empty
  string splits into one empty piece.\<close>

function splitFrom :: "string \<Rightarrow> string \<Rightarrow> string list" where
  "splitFrom cur [] = [cur]"
| "splitFrom cur (c # cs) =
     (if isSpaceChar c then cur # splitFrom [] (dropWhile isSpaceChar cs)
      else splitFrom (cur @ [c]) cs)"
  by pat_completeness auto
termination
  by (relation "measure (\<lambda>(cur, s). length s)")
     (auto simp: le_imp_less_Suc length_dropWhile_le)

definition splitWhitespace :: "string \<Rightarrow> string list" where
  "splitWhitespace s = splitFrom [] s"

text \<open>The chain applied to each key point and each main idea.\<close>

definition pointWords :: "string \<Rightarrow> string list" where
  "pointWords point =
     filter (\<lambda>w. length w > 4)
       (splitWhitespace (replacePunctuation (toLowerCase point)))"

subsection \<open>Sets in insertion order\<close>

definition setAdd :: "'a list \<Rightarrow> 'a \<Rightarrow> 'a list" where
  "setAdd s x = (if x \<in> set s then s else s @ [x])"

definition newSet :: "'a list \<Rightarrow> 'a list" where
  "newSet xs = foldl setAdd [] xs"

definition has :: "'a list \<Rightarrow> 'a \<Rightarrow> bool" where
  "has s x = (x \<in> set s)"

subsection \<open>extractKeywords\<close>

text \<open>\<^verbatim>\<open>forEach\<close> over the elements of an array field, pushing the words of each
  element; calling \<^verbatim>\<open>toLowerCase\<close> on an element that is not a string throws.\<close>

fun pushWords :: "json list \<Rightarrow> string list \<Rightarrow> exn + string list" where
  "pushWords [] keywords = Inr keywords"
| "pushWords (JStr point # rest) keywords = pushWords rest (keywords @ pointWords point)"
| "pushWords (JNull # rest) keywords =
     Inl (TypeError ''Cannot read properties of null (reading 'toLowerCase')'')"
| "pushWords (other # rest) keywords =
     Inl (TypeError ''point.toLowerCase is not a function'')"

definition extractField :: "json \<Rightarrow> string \<Rightarrow> string list \<Rightarrow> exn + string list" where
  "extractField summaryJson name keywords =
     (case optProp summaryJson name of
        None \<Rightarrow> Inr keywords
      | Some v \<Rightarrow>
          (if truthy v \<and> isArray v
           then (case v of JArr points \<Rightarrow> pushWords points keywords | _ \<Rightarrow> Inr keywords)
           else Inr keywords))"

text \<open>The array literal of stop words, and the \<^verbatim>\<open>Set\<close> built from it.\<close>

definition stopWords :: "string list" where
  "stopWords =
     [''that'', ''this'', ''with'', ''from'', ''have'', ''their'', ''would'', ''about'',
      ''there'', ''which'', ''could'', ''other'', ''these'', ''those'', ''being'', ''should'',
      ''where'', ''while'', ''after'', ''before'', ''through'', ''during'', ''between'']"

definition commonWords :: "string list" where
  "commonWords = newSet stopWords"

text \<open>The body of the \<^verbatim>\<open>try\<close> block.\<close>

definition extractKeywordsTry :: "json \<Rightarrow> exn + string list" where
  "extractKeywordsTry summaryJson =
     (case extractField summaryJson ''key_points'' [] of
        Inl e \<Rightarrow> Inl e
      | Inr keywords1 \<Rightarrow>
          (case extractField summaryJson ''main_ideas'' keywords1 of
             Inl e \<Rightarrow> Inl e
           | Inr keywords \<Rightarrow>
               Inr (take 15 (filter (\<lambda>w. \<not> has commonWords w) (newSet keywords)))))"

text \<open>The whole function: the \<^verbatim>\<open>catch\<close> clause logs and returns the empty array.\<close>

definition extractKeywords :: "json \<Rightarrow> exn + string list" where
  "extractKeywords summaryJson =
     (case extractKeywordsTry summaryJson of
        Inl error \<Rightarrow> Inr []
      | Inr uniqueKeywords \<Rightarrow> Inr uniqueKeywords)"

subsection \<open>calculateSimilarity\<close>

text \<open>The source also builds \<^verbatim>\<open>set1\<close> from the first list and never reads it; the
  shared keywords are filtered from the first list itself.\<close>

record similarity_result =
  sharedKeywords :: "string list"
  similarity :: rat

definition calculateSimilarity :: "string list \<Rightarrow> string list \<Rightarrow> similarity_result" where
  "calculateSimilarity keywords1 keywords2 =
     (let set2 = newSet keywords2;
          shared = filter (\<lambda>k. has set2 k) keywords1;
          totalUniqueKeywords = length (newSet (keywords1 @ keywords2))
      in \<lparr> sharedKeywords = shared,
           similarity = (if totalUniqueKeywords > 0
                         then of_nat (length shared) / of_nat totalUniqueKeywords
                         else 0) \<rparr>)"

subsection \<open>Entries and links\<close>

record entry =
  kb_id :: string
  summary_json :: json
  category :: "string option"
  title :: "string option"

record entryWithKeywords = entry +
  entry_keywords :: "string list"

record link =
  user_id :: string
  source_kb_id :: string
  target_kb_id :: string
  link_type :: string
  link_strength :: rat
  shared_keywords :: "string list"

text \<open>\<^verbatim>\<open>entries.map(entry => ({ ...entry, keywords: extractKeywords(entry.summary_json) }))\<close>\<close>

fun withKeywords :: "entry list \<Rightarrow> exn + entryWithKeywords list" where
  "withKeywords [] = Inr []"
| "withKeywords (e # es) =
     (case extractKeywords (summary_json e) of
        Inl x \<Rightarrow> Inl x
      | Inr ks \<Rightarrow>
          (case withKeywords es of
             Inl x \<Rightarrow> Inl x
           | Inr rest \<Rightarrow>
               Inr (\<lparr> kb_id = kb_id e, summary_json = summary_json e,
                       category = category e, title = title e, entry_keywords = ks \<rparr> # rest)))"

subsection \<open>The comparison loops\<close>

text \<open>\<^verbatim>\<open>minSimilarity\<close> and \<^verbatim>\<open>maxLinks\<close> enter the loops only as the right operand of
  \<^verbatim>\<open>>=\<close> against a number, that is through \<^verbatim>\<open>ToNumber\<close>: a rational, or \<open>None\<close> for
  \<^verbatim>\<open>NaN\<close>, against which every comparison is false. Both operands are doubles
  where the handler calls the loops: the right one as \<open>toNumber\<close> gives it, the
  left one an array length or the double of the similarity.\<close>

definition geNum :: "rat \<Rightarrow> rat option \<Rightarrow> bool" where
  "geNum x y = (case y of None \<Rightarrow> False | Some m \<Rightarrow> x \<ge> m)"

text \<open>The condition of the \<^verbatim>\<open>if\<close> and the object pushed under it. The
  similarity that the source compares is the double of the quotient.\<close>

definition meetsThreshold :: "rat option \<Rightarrow> entryWithKeywords \<Rightarrow> entryWithKeywords \<Rightarrow> bool" where
  "meetsThreshold minSimilarity entry1 entry2 =
     (let r = calculateSimilarity (entry_keywords entry1) (entry_keywords entry2)
      in geNum (nearestDouble (similarity r)) minSimilarity \<and> length (sharedKeywords r) \<ge> 2)"

definition newLink :: "string \<Rightarrow> entryWithKeywords \<Rightarrow> entryWithKeywords \<Rightarrow> link" where
  "newLink userId entry1 entry2 =
     (let r = calculateSimilarity (entry_keywords entry1) (entry_keywords entry2);
          categoryBoost = (if category entry1 = category entry2 then 1 / 10 else 0);
          finalStrength = min (similarity r + categoryBoost) 1
      in \<lparr> user_id = userId, source_kb_id = kb_id entry1, target_kb_id = kb_id entry2,
           link_type = ''auto'', link_strength = finalStrength,
           shared_keywords = sharedKeywords r \<rparr>)"

text \<open>The inner loop, over the entries after \<open>entry1\<close>; the state is
  \<^verbatim>\<open>linksToInsert\<close> and \<^verbatim>\<open>comparisons\<close>.\<close>

fun innerLoop ::
  "string \<Rightarrow> rat option \<Rightarrow> rat option \<Rightarrow> entryWithKeywords \<Rightarrow> entryWithKeywords list \<Rightarrow>
   link list \<times> nat \<Rightarrow> link list \<times> nat" where
  "innerLoop userId minSimilarity maxLinks entry1 [] st = st"
| "innerLoop userId minSimilarity maxLinks entry1 (entry2 # rest) (linksToInsert, comparisons) =
     (if meetsThreshold minSimilarity entry1 entry2
      then (let pushed = linksToInsert @ [newLink userId entry1 entry2]
            in if geNum (of_nat (length pushed)) maxLinks
               then (pushed, comparisons + 1)
               else innerLoop userId minSimilarity maxLinks entry1 rest (pushed, comparisons + 1))
      else innerLoop userId minSimilarity maxLinks entry1 rest (linksToInsert, comparisons + 1))"

text \<open>The outer loop, with its own test of the cap after each inner loop.\<close>

fun outerLoop ::
  "string \<Rightarrow> rat option \<Rightarrow> rat option \<Rightarrow> entryWithKeywords list \<Rightarrow>
   link list \<times> nat \<Rightarrow> link list \<times> nat" where
  "outerLoop userId minSimilarity maxLinks [] st = st"
| "outerLoop userId minSimilarity maxLinks (entry1 # rest) st =
     (let st' = innerLoop userId minSimilarity maxLinks entry1 rest st
      in if geNum (of_nat (length (fst st'))) maxLinks
         then st'
         else outerLoop userId minSimilarity maxLinks rest st')"

definition compareAll ::
  "string \<Rightarrow> rat option \<Rightarrow> rat option \<Rightarrow> entryWithKeywords list \<Rightarrow> link list \<times> nat" where
  "compareAll userId minSimilarity maxLinks entriesWithKeywords =
     outerLoop userId minSimilarity maxLinks entriesWithKeywords ([], 0)"

text \<open>The pairs of entries in the order the loops reach them: the first entry
  with each later one, then the second with each later one, and so on.\<close>

fun pairsInOrder :: "'a list \<Rightarrow> ('a \<times> 'a) list" where
  "pairsInOrder [] = []"
| "pairsInOrder (x # xs) = map (Pair x) xs @ pairsInOrder xs"

subsection \<open>Persistence in batches\<close>

record response =
  status :: nat
  payload :: json

text \<open>\<^verbatim>\<open>s.includes(pat)\<close>\<close>

fun includesStr :: "string \<Rightarrow> string \<Rightarrow> bool" where
  "includesStr [] pat = (pat = [])"
| "includesStr (c # cs) pat = (take (length pat) (c # cs) = pat \<or> includesStr cs pat)"

text \<open>\<^verbatim>\<open>error.message?.includes('relation') && error.message?.includes('does not exist')\<close>\<close>

definition tableMissing :: "db_error \<Rightarrow> bool" where
  "tableMissing error =
     (case message error of
        None \<Rightarrow> False
      | Some m \<Rightarrow> includesStr m ''relation'' \<and> includesStr m ''does not exist'')"

definition tableNotFound :: "db_error \<Rightarrow> response" where
  "tableNotFound error =
     \<lparr> status = 500,
       payload = JObj
         [(''error'', JStr ''Knowledge graph table not found''),
          (''message'', JStr ''Please run the database migration first: node scripts/create-knowledge-graph-links-table.js''),
          (''details'', (case message error of Some m \<Rightarrow> JStr m | None \<Rightarrow> JNull))] \<rparr>"

text \<open>The batch loop. \<open>upsert i batch\<close> is the store's answer to the write of the
  batch that starts at offset \<open>i\<close>: \<open>None\<close> when it succeeds, the error otherwise.
  The state is \<^verbatim>\<open>insertedCount\<close> and the batches handed to the store so far; the
  result is the early error response or the final count.\<close>

function insertBatches ::
  "(nat \<Rightarrow> link list \<Rightarrow> db_error option) \<Rightarrow> link list \<Rightarrow> nat \<Rightarrow>
   nat \<times> link list list \<Rightarrow> (response + nat) \<times> link list list" where
  "insertBatches upsert linksToInsert i (insertedCount, written) =
     (if i < length linksToInsert
      then (let batch = take 100 (drop i linksToInsert)
            in case upsert i batch of
                 Some error \<Rightarrow>
                   (if tableMissing error
                    then (Inl (tableNotFound error), written @ [batch])
                    else insertBatches upsert linksToInsert (i + 100)
                           (insertedCount, written @ [batch]))
               | None \<Rightarrow>
                   insertBatches upsert linksToInsert (i + 100)
                     (insertedCount + length batch, written @ [batch]))
      else (Inr insertedCount, written))"
  by pat_completeness auto
termination
  by (relation "measure (\<lambda>(upsert, linksToInsert, i, st). length linksToInsert - i)") auto

subsection \<open>The handler\<close>

record request =
  authorization :: "string option"
  body :: "json option"

text \<open>The answers of the external services: the user behind a token (\<open>None\<close> for
  an authentication error or no user), the entries of a user (an error, or the
  data, which may be \<^verbatim>\<open>null\<close>), and the outcome of each batch write.\<close>

record services =
  getUser :: "string \<Rightarrow> string option"
  selectEntries :: "string \<Rightarrow> db_error + entry list option"
  upsertLinks :: "nat \<Rightarrow> link list \<Rightarrow> db_error option"

text \<open>What the handler did besides answering: the pairs it compared and the
  batches it handed to the store.\<close>

record outcome =
  answer :: response
  comparisonsMade :: nat
  batchesWritten :: "link list list"

text \<open>\<^verbatim>\<open>s.replace(pat, rep)\<close> with a string pattern: the first occurrence only.\<close>

fun replaceFirst :: "string \<Rightarrow> string \<Rightarrow> string \<Rightarrow> string" where
  "replaceFirst pat rep [] = (if pat = [] then rep else [])"
| "replaceFirst pat rep (c # cs) =
     (if take (length pat) (c # cs) = pat then rep @ drop (length pat) (c # cs)
      else c # replaceFirst pat rep cs)"

text \<open>\<^verbatim>\<open>body.name\<close>: throws on \<^verbatim>\<open>null\<close>.\<close>

definition getProp :: "json \<Rightarrow> string \<Rightarrow> exn + json option" where
  "getProp v name =
     (case v of
        JNull \<Rightarrow>
          Inl (TypeError (''Cannot read properties of null (reading '' @ [CHR 0x27] @ name @
                          [CHR 0x27] @ '')''))
      | _ \<Rightarrow> Inr (optProp v name))"

text \<open>\<^verbatim>\<open>x || d\<close>\<close>

definition orDefault :: "json option \<Rightarrow> json \<Rightarrow> json" where
  "orDefault x d = (case x of None \<Rightarrow> d | Some v \<Rightarrow> if truthy v then v else d)"

text \<open>Lines 102 to 104: the options of the request. A body that does not parse
  (\<open>None\<close>) is replaced by the empty object.\<close>

definition parseOptions :: "json option \<Rightarrow> exn + json \<times> json" where
  "parseOptions requestBody =
     (let body = (case requestBody of None \<Rightarrow> JObj [] | Some b \<Rightarrow> b)
      in case getProp body ''minSimilarity'' of
           Inl e \<Rightarrow> Inl e
         | Inr ms \<Rightarrow>
             (case getProp body ''maxLinks'' of
                Inl e \<Rightarrow> Inl e
              | Inr ml \<Rightarrow> Inr (orDefault ms (JNum (15 / 100)), orDefault ml (JNum 1000))))"

text \<open>\<^verbatim>\<open>ToNumber\<close> of the value on the right of \<^verbatim>\<open>>=\<close>. \<open>coerce\<close> is the language's
  conversion of strings, arrays and objects, \<open>None\<close> where it gives \<^verbatim>\<open>NaN\<close>. A
  number is the double that the parser made of its literal.\<close>

definition toNumber :: "(json \<Rightarrow> rat option) \<Rightarrow> json \<Rightarrow> rat option" where
  "toNumber coerce v =
     (case v of
        JNum n \<Rightarrow> doubleOperand n
      | JBool b \<Rightarrow> Some (if b then 1 else 0)
      | JNull \<Rightarrow> Some 0
      | _ \<Rightarrow> coerce v)"

function showNat :: "nat \<Rightarrow> string" where
  "showNat n =
     (if n < 10 then [char_of (48 + n)]
      else showNat (n div 10) @ [char_of (48 + n mod 10)])"
  by pat_completeness auto
termination
  by (relation "measure id") auto

definition unauthorized :: response where
  "unauthorized = \<lparr> status = 401, payload = JObj [(''error'', JStr ''Unauthorized'')] \<rparr>"

definition noEntries :: response where
  "noEntries =
     \<lparr> status = 200,
       payload = JObj
         [(''success'', JBool True),
          (''linksCreated'', JNum 0),
          (''message'', JStr ''No knowledge base entries found'')] \<rparr>"

definition generated :: "nat \<Rightarrow> nat \<Rightarrow> nat \<Rightarrow> response" where
  "generated insertedCount totalEntries comparisons =
     \<lparr> status = 200,
       payload = JObj
         [(''success'', JBool True),
          (''linksCreated'', JNum (of_nat insertedCount)),
          (''totalEntries'', JNum (of_nat totalEntries)),
          (''comparisons'', JNum (of_nat comparisons)),
          (''message'', JStr (''Successfully generated '' @ showNat insertedCount @
             '' connections from '' @ showNat totalEntries @ '' entries''))] \<rparr>"

text \<open>The outer \<^verbatim>\<open>catch\<close>.\<close>

definition failed :: "exn \<Rightarrow> response" where
  "failed error =
     \<lparr> status = 500,
       payload = JObj
         [(''error'', JStr ''Failed to generate links''),
          (''details'',
             (case error of
                TypeError m \<Rightarrow> JStr m
              | Thrown e \<Rightarrow>
                  (if instanceofError e
                   then JStr (case message e of Some m \<Rightarrow> m | None \<Rightarrow> [])
                   else JStr ''Unknown error'')))] \<rparr>"

text \<open>The handler after the user is known, from parsing the body on.\<close>

definition generateLinks ::
  "(json \<Rightarrow> rat option) \<Rightarrow> services \<Rightarrow> string \<Rightarrow> json option \<Rightarrow> outcome" where
  "generateLinks coerce sv userId requestBody =
     (case parseOptions requestBody of
        Inl e \<Rightarrow> \<lparr> answer = failed e, comparisonsMade = 0, batchesWritten = [] \<rparr>
      | Inr (minSimilarity, maxLinks) \<Rightarrow>
          (case selectEntries sv userId of
             Inl entriesError \<Rightarrow>
               \<lparr> answer = failed (Thrown entriesError), comparisonsMade = 0, batchesWritten = [] \<rparr>
           | Inr None \<Rightarrow> \<lparr> answer = noEntries, comparisonsMade = 0, batchesWritten = [] \<rparr>
           | Inr (Some entries) \<Rightarrow>
               (if length entries = 0
                then \<lparr> answer = noEntries, comparisonsMade = 0, batchesWritten = [] \<rparr>
                else
                  (case withKeywords entries of
                     Inl e \<Rightarrow> \<lparr> answer = failed e, comparisonsMade = 0, batchesWritten = [] \<rparr>
                   | Inr entriesWithKeywords \<Rightarrow>
                       (let (linksToInsert, comparisons) =
                              compareAll userId (toNumber coerce minSimilarity)
                                (toNumber coerce maxLinks) entriesWithKeywords;
                            (result, written) =
                              (if length linksToInsert > 0
                               then insertBatches (upsertLinks sv) linksToInsert 0 (0, [])
                               else (Inr 0, []))
                        in \<lparr> answer = (case result of
                                          Inl early \<Rightarrow> early
                                        | Inr insertedCount \<Rightarrow>
                                            generated insertedCount (length entries) comparisons),
                             comparisonsMade = comparisons,
                             batchesWritten = written \<rparr>)))))"

definition POST :: "(json \<Rightarrow> rat option) \<Rightarrow> services \<Rightarrow> request \<Rightarrow> outcome" where
  "POST coerce sv req =
     (case authorization req of
        None \<Rightarrow> \<lparr> answer = unauthorized, comparisonsMade = 0, batchesWritten = [] \<rparr>
      | Some authHeader \<Rightarrow>
          (if authHeader = []
           then \<lparr> answer = unauthorized, comparisonsMade = 0, batchesWritten = [] \<rparr>
           else (let token = replaceFirst ''Bearer '' [] authHeader
                 in case getUser sv token of
                      None \<Rightarrow> \<lparr> answer = unauthorized, comparisonsMade = 0, batchesWritten = [] \<rparr>
                    | Some userId \<Rightarrow> generateLinks coerce sv userId (body req))))"

section \<open>Vocabulary of the properties\<close>

subsection \<open>The candidates of a list of pairs\<close>

text \<open>The links that the pairs of a list give rise to, in the order of the list:
  one for each pair that passes the test of the \<^verbatim>\<open>if\<close>.\<close>

definition candidates ::
  "string \<Rightarrow> rat option \<Rightarrow> (entryWithKeywords \<times> entryWithKeywords) list \<Rightarrow> link list" where
  "candidates userId minSimilarity ps =
     map (\<lambda>(a, b). newLink userId a b) (filter (\<lambda>(a, b). meetsThreshold minSimilarity a b) ps)"

subsection \<open>The keyword pipeline in the words of the specification\<close>

text \<open>Letters and digits among the characters below 256.\<close>

definition isLetter :: "char \<Rightarrow> bool" where
  "isLetter c =
     (let n = code c in
      (65 \<le> n \<and> n \<le> 90) \<or> (97 \<le> n \<and> n \<le> 122) \<or> n = 170 \<or> n = 181 \<or> n = 186 \<or>
      (192 \<le> n \<and> n \<le> 214) \<or> (216 \<le> n \<and> n \<le> 246) \<or> (248 \<le> n \<and> n \<le> 255))"

definition isDigit :: "char \<Rightarrow> bool" where
  "isDigit c = (let n = code c in 48 \<le> n \<and> n \<le> 57)"

text \<open>The characters that are kept according to the specification (a letter, a
  digit or white space), and the ones the source keeps (a word character or
  white space).\<close>

definition statedClass :: "char \<Rightarrow> bool" where
  "statedClass c = (isLetter c \<or> isDigit c \<or> isSpaceChar c)"

definition sourceClass :: "char \<Rightarrow> bool" where
  "sourceClass c = (isWordChar c \<or> isSpaceChar c)"

text \<open>Deduplication that keeps the first occurrence of each element.\<close>

function dedupFirst :: "'a list \<Rightarrow> 'a list" where
  "dedupFirst [] = []"
| "dedupFirst (x # xs) = x # dedupFirst (removeAll x xs)"
  by pat_completeness auto
termination
  by (relation "measure length") (auto simp: le_imp_less_Suc length_removeAll_less_eq)

text \<open>Lower-case, replace every character outside the class by one space, split on
  runs of white space, keep the tokens longer than 4 characters.\<close>

definition tokensBy :: "(char \<Rightarrow> bool) \<Rightarrow> string \<Rightarrow> string list" where
  "tokensBy keep s =
     filter (\<lambda>w. length w > 4)
       (splitWhitespace (map (\<lambda>c. if keep c then c else CHR '' '') (toLowerCase s)))"

text \<open>Key-point tokens before main-idea tokens, stop words removed, deduplicated,
  truncated to 15.\<close>

definition keywordsBy :: "(char \<Rightarrow> bool) \<Rightarrow> string list \<Rightarrow> string list \<Rightarrow> string list" where
  "keywordsBy keep keyPoints mainIdeas =
     take 15 (dedupFirst (filter (\<lambda>w. w \<notin> set stopWords)
       (concat (map (tokensBy keep) keyPoints) @ concat (map (tokensBy keep) mainIdeas))))"

subsection \<open>Shapes of a summary\<close>

fun isString :: "json \<Rightarrow> bool" where
  "isString (JStr s) = True"
| "isString _ = False"

text \<open>The elements of a field that holds an array; \<open>None\<close> when the field is absent
  or holds anything else.\<close>

definition arrayField :: "json \<Rightarrow> string \<Rightarrow> json list option" where
  "arrayField j name = (case optProp j name of Some (JArr xs) \<Rightarrow> Some xs | _ \<Rightarrow> None)"

subsection \<open>Batches\<close>




subsection \<open>The entries of the worked example\<close>

definition entryA :: entry where
  "entryA =
     \<lparr> kb_id = ''A'',
       summary_json = JObj [(''key_points'', JArr [JStr ''Machine learning models require training''])],
       category = Some ''Technology'', title = Some ''Entry A'' \<rparr>"

definition entryB :: entry where
  "entryB =
     \<lparr> kb_id = ''B'',
       summary_json = JObj [(''key_points'', JArr [JStr ''Training machine learning systems needs data''])],
       category = Some ''Technology'', title = Some ''Entry B'' \<rparr>"

definition withA :: entryWithKeywords where
  "withA =
     \<lparr> kb_id = ''A'',
       summary_json = JObj [(''key_points'', JArr [JStr ''Machine learning models require training''])],
       category = Some ''Technology'', title = Some ''Entry A'',
       entry_keywords = [''machine'', ''learning'', ''models'', ''require'', ''training''] \<rparr>"

definition withB :: entryWithKeywords where
  "withB =
     \<lparr> kb_id = ''B'',
       summary_json = JObj [(''key_points'', JArr [JStr ''Training machine learning systems needs data''])],
       category = Some ''Technology'', title = Some ''Entry B'',
       entry_keywords = [''training'', ''machine'', ''learning'', ''systems'', ''needs''] \<rparr>"

text \<open>A second entry with the summary and the category of A.\<close>

definition twinA :: entryWithKeywords where
  "twinA = withA \<lparr> kb_id := ''A2'' \<rparr>"

text \<open>Services for the examples: one user behind the token \<open>tok\<close>, the given
  entries, and a store whose answer to each write is given.\<close>

definition exampleServices ::
  "entry list option \<Rightarrow> (nat \<Rightarrow> link list \<Rightarrow> db_error option) \<Rightarrow> services" where
  "exampleServices found upsert =
     \<lparr> getUser = (\<lambda>token. if token = ''tok'' then Some ''user-1'' else None),
       selectEntries = (\<lambda>userId. Inr found),
       upsertLinks = upsert \<rparr>"

definition exampleRequest :: "json option \<Rightarrow> request" where
  "exampleRequest b = \<lparr> authorization = Some ''Bearer tok'', body = b \<rparr>"


subsection \<open>Falsy option values\<close>

text \<open>The left operand of \<^verbatim>\<open>||\<close> gives way to the right one when it is \<^verbatim>\<open>undefined\<close>
  (here \<open>None\<close>) or a falsy value.\<close>

definition falsy :: "json option \<Rightarrow> bool" where
  "falsy x = (case x of None \<Rightarrow> True | Some v \<Rightarrow> \<not> truthy v)"

subsection \<open>An example with two batches\<close>



subsection \<open>Examples for the threshold\<close>

text \<open>The conversion of a string of decimal digits to a number, and \<^verbatim>\<open>NaN\<close>
  elsewhere: the instance of \<open>coerce\<close> that the examples use.\<close>

definition coerceDigits :: "json \<Rightarrow> rat option" where
  "coerceDigits v =
     (case v of
        JStr s \<Rightarrow>
          (if s \<noteq> [] \<and> list_all isDigit s
           then doubleOperand (of_int (foldl (\<lambda>n c. 10 * n + (int (code c) - 48)) 0 s))
           else None)
      | _ \<Rightarrow> None)"

text \<open>Two entries with 15 keywords each, 2 of them shared: similarity 2/28.\<close>

definition sparseA :: entry where
  "sparseA =
     \<lparr> kb_id = ''SA'',
       summary_json = JObj [(''key_points'', JArr [JStr
         ''common shared apple01 apple02 apple03 apple04 apple05 apple06 apple07 apple08 apple09 apple10 apple11 apple12 apple13''])],
       category = Some ''Science'', title = None \<rparr>"

definition sparseB :: entry where
  "sparseB =
     \<lparr> kb_id = ''SB'',
       summary_json = JObj [(''key_points'', JArr [JStr
         ''common shared berry01 berry02 berry03 berry04 berry05 berry06 berry07 berry08 berry09 berry10 berry11 berry12 berry13''])],
       category = Some ''Health'', title = None \<rparr>"

text \<open>Two entries with 6 keywords each, 5 of them shared: similarity 5/7.\<close>

definition nearA :: entry where
  "nearA =
     \<lparr> kb_id = ''NA'',
       summary_json = JObj [(''key_points'', JArr [JStr ''alpha bravo charlie delta hotel apple''])],
       category = Some ''Science'', title = None \<rparr>"

definition nearB :: entry where
  "nearB =
     \<lparr> kb_id = ''NB'',
       summary_json = JObj [(''key_points'', JArr [JStr ''alpha bravo charlie delta hotel berry''])],
       category = Some ''Health'', title = None \<rparr>"

section \<open>Auxiliary facts\<close>

subsection \<open>Sets in insertion order\<close>

lemma set_foldl_setAdd: "set (foldl setAdd acc xs) = set acc \<union> set xs"
  by (induction xs arbitrary: acc) (auto simp: setAdd_def)

lemma distinct_foldl_setAdd: "distinct acc \<Longrightarrow> distinct (foldl setAdd acc xs)"
  by (induction xs arbitrary: acc) (auto simp: setAdd_def)

lemma set_newSet: "set (newSet xs) = set xs"
  by (simp add: newSet_def set_foldl_setAdd)

lemma distinct_newSet: "distinct (newSet xs)"
  by (simp add: newSet_def distinct_foldl_setAdd)

lemma length_newSet: "length (newSet xs) = card (set xs)"
  using distinct_card [OF distinct_newSet, of xs] by (simp add: set_newSet)

lemma filter_foldl_setAdd:
  "filter P (foldl setAdd acc xs) = foldl setAdd (filter P acc) (filter P xs)"
  by (induction xs arbitrary: acc) (auto simp: setAdd_def)

lemma filter_newSet: "filter P (newSet xs) = newSet (filter P xs)"
  by (simp add: newSet_def filter_foldl_setAdd)

lemma foldl_setAdd_dedupFirst:
  "foldl setAdd acc xs = acc @ dedupFirst (filter (\<lambda>x. x \<notin> set acc) xs)"
proof (induction xs arbitrary: acc)
  case Nil
  then show ?case by simp
next
  case (Cons x xs)
  show ?case
  proof (cases "x \<in> set acc")
    case True
    then show ?thesis using Cons.IH [of acc] by (simp add: setAdd_def)
  next
    case False
    have "removeAll x (filter (\<lambda>y. y \<notin> set acc) xs) = filter (\<lambda>y. y \<notin> set (acc @ [x])) xs"
      by (induction xs) auto
    then show ?thesis using False Cons.IH [of "acc @ [x]"] by (simp add: setAdd_def)
  qed
qed

lemma newSet_dedupFirst: "newSet xs = dedupFirst xs"
  using foldl_setAdd_dedupFirst [of "[]" xs] by (simp add: newSet_def)

subsection \<open>calculateSimilarity\<close>

lemma calc_shared: "sharedKeywords (calculateSimilarity k1 k2) = filter (\<lambda>k. k \<in> set k2) k1"
  by (simp add: calculateSimilarity_def Let_def has_def set_newSet)

lemma calc_similarity:
  "similarity (calculateSimilarity k1 k2) =
     (if set k1 \<union> set k2 = {} then 0
      else of_nat (length (filter (\<lambda>k. k \<in> set k2) k1)) / of_nat (card (set k1 \<union> set k2)))"
  by (auto simp add: calculateSimilarity_def Let_def has_def set_newSet length_newSet)

lemma similarity_nonneg: "0 \<le> similarity (calculateSimilarity k1 k2)"
  by (simp add: calc_similarity)

lemma distinct_shared_card:
  assumes d: "distinct k1"
  shows "length (filter (\<lambda>k. k \<in> set k2) k1) = card (set k1 \<inter> set k2)"
proof -
  have "set (filter (\<lambda>k. k \<in> set k2) k1) = set k1 \<inter> set k2" by auto
  moreover have "distinct (filter (\<lambda>k. k \<in> set k2) k1)" using d by simp
  ultimately show ?thesis using distinct_card by metis
qed

lemma newLink_strength: "0 \<le> link_strength (newLink u a b) \<and> link_strength (newLink u a b) \<le> 1"
  by (simp add: newLink_def Let_def similarity_nonneg min_def)

subsection \<open>The comparison loops\<close>

lemma candidates_Nil [simp]: "candidates u ms [] = []"
  by (simp add: candidates_def)

lemma candidates_append: "candidates u ms (ps @ qs) = candidates u ms ps @ candidates u ms qs"
  by (simp add: candidates_def)

lemma candidates_Cons:
  "candidates u ms ((a, b) # ps) =
     (if meetsThreshold ms a b then newLink u a b # candidates u ms ps else candidates u ms ps)"
  by (simp add: candidates_def)

lemma innerLoop_trace:
  "innerLoop u ms ml e1 rest (links, c) = (links', c') \<Longrightarrow>
     c \<le> c' \<and> c' - c \<le> length rest \<and>
     links' = links @ candidates u ms (take (c' - c) (map (Pair e1) rest)) \<and>
     (c' - c = length rest \<or> geNum (of_nat (length links')) ml)"
proof (induction rest arbitrary: links c)
  case Nil
  then show ?case by simp
next
  case (Cons e2 rest)
  show ?case
  proof (cases "meetsThreshold ms e1 e2")
    case False
    with Cons.prems have run: "innerLoop u ms ml e1 rest (links, c + 1) = (links', c')" by simp
    from Cons.IH [OF run] have ih: "c + 1 \<le> c'" "c' - (c + 1) \<le> length rest"
      "links' = links @ candidates u ms (take (c' - (c + 1)) (map (Pair e1) rest))"
      "c' - (c + 1) = length rest \<or> geNum (of_nat (length links')) ml" by auto
    from ih(1) have k: "c' - c = Suc (c' - (c + 1))" by simp
    show ?thesis using ih False unfolding k by (auto simp: candidates_Cons)
  next
    case True
    let ?pushed = "links @ [newLink u e1 e2]"
    show ?thesis
    proof (cases "geNum (of_nat (length ?pushed)) ml")
      case stop: True
      with True Cons.prems have "links' = ?pushed" "c' = c + 1" by (auto simp: Let_def)
      then show ?thesis using True stop by (auto simp: candidates_Cons)
    next
      case go: False
      with True Cons.prems have run: "innerLoop u ms ml e1 rest (?pushed, c + 1) = (links', c')"
        by (auto simp: Let_def)
      from Cons.IH [OF run] have ih: "c + 1 \<le> c'" "c' - (c + 1) \<le> length rest"
        "links' = ?pushed @ candidates u ms (take (c' - (c + 1)) (map (Pair e1) rest))"
        "c' - (c + 1) = length rest \<or> geNum (of_nat (length links')) ml" by auto
      from ih(1) have k: "c' - c = Suc (c' - (c + 1))" by simp
      show ?thesis using ih True unfolding k by (auto simp: candidates_Cons)
    qed
  qed
qed

lemma outerLoop_trace:
  "outerLoop u ms ml es (links, c) = (links', c') \<Longrightarrow>
     c \<le> c' \<and> c' - c \<le> length (pairsInOrder es) \<and>
     links' = links @ candidates u ms (take (c' - c) (pairsInOrder es)) \<and>
     (c' - c = length (pairsInOrder es) \<or> geNum (of_nat (length links')) ml)"
proof (induction es arbitrary: links c)
  case Nil
  then show ?case by simp
next
  case (Cons e1 rest)
  obtain l1 c1 where inner: "innerLoop u ms ml e1 rest (links, c) = (l1, c1)"
    by (cases "innerLoop u ms ml e1 rest (links, c)") auto
  from innerLoop_trace [OF inner] have it: "c \<le> c1" "c1 - c \<le> length rest"
    "l1 = links @ candidates u ms (take (c1 - c) (map (Pair e1) rest))"
    "c1 - c = length rest \<or> geNum (of_nat (length l1)) ml" by auto
  show ?case
  proof (cases "geNum (of_nat (length l1)) ml")
    case True
    with Cons.prems inner have "links' = l1" "c' = c1" by (auto simp: Let_def)
    then show ?thesis using it True by auto
  next
    case False
    with it(4) have full: "c1 - c = length rest" by simp
    from False Cons.prems inner have run: "outerLoop u ms ml rest (l1, c1) = (links', c')"
      by (auto simp: Let_def)
    from Cons.IH [OF run] have ih: "c1 \<le> c'" "c' - c1 \<le> length (pairsInOrder rest)"
      "links' = l1 @ candidates u ms (take (c' - c1) (pairsInOrder rest))"
      "c' - c1 = length (pairsInOrder rest) \<or> geNum (of_nat (length links')) ml" by auto
    have k: "c' - c = length rest + (c' - c1)" using full it(1) ih(1) by simp
    have "take (c' - c) (pairsInOrder (e1 # rest)) =
            map (Pair e1) rest @ take (c' - c1) (pairsInOrder rest)"
      unfolding k by simp
    moreover have "l1 = links @ candidates u ms (map (Pair e1) rest)"
      using it(3) full by simp
    ultimately show ?thesis using ih it(1) k by (auto simp: candidates_append)
  qed
qed

lemma geNum_nat: "geNum (of_nat k) (Some (of_nat n)) = (n \<le> k)"
  by (simp add: geNum_def)

lemma innerLoop_cap:
  "length links < n \<Longrightarrow> innerLoop u ms (Some (of_nat n)) e1 rest (links, c) = (links', c') \<Longrightarrow>
     length links' \<le> n \<and>
     (length links' = n \<longrightarrow> c < c' \<and> meetsThreshold ms e1 (rest ! (c' - c - 1)))"
proof (induction rest arbitrary: links c)
  case Nil
  then show ?case by simp
next
  case (Cons e2 rest)
  show ?case
  proof (cases "meetsThreshold ms e1 e2")
    case False
    with Cons.prems have run: "innerLoop u ms (Some (of_nat n)) e1 rest (links, c + 1) = (links', c')"
      by simp
    from Cons.IH [OF Cons.prems(1) run]
    have ih: "length links' \<le> n"
      "length links' = n \<longrightarrow> c + 1 < c' \<and> meetsThreshold ms e1 (rest ! (c' - (c + 1) - 1))"
      by auto
    show ?thesis
    proof (intro conjI impI)
      show "length links' \<le> n" by (rule ih(1))
    next
      assume "length links' = n"
      with ih(2) have a: "c + 1 < c'" and b: "meetsThreshold ms e1 (rest ! (c' - (c + 1) - 1))"
        by auto
      from a show "c < c'" by simp
      from a have "c' - c - 1 = Suc (c' - (c + 1) - 1)" by simp
      then show "meetsThreshold ms e1 ((e2 # rest) ! (c' - c - 1))" using b by simp
    qed
  next
    case True
    let ?pushed = "links @ [newLink u e1 e2]"
    show ?thesis
    proof (cases "n \<le> length ?pushed")
      case stop: True
      with True Cons.prems have "links' = ?pushed" "c' = c + 1"
        by (auto simp: Let_def geNum_nat)
      then show ?thesis using True Cons.prems(1) by auto
    next
      case go: False
      with True Cons.prems have run:
        "innerLoop u ms (Some (of_nat n)) e1 rest (?pushed, c + 1) = (links', c')"
        by (auto simp: Let_def geNum_nat)
      from go have below: "length ?pushed < n" by simp
      from Cons.IH [OF below run]
      have ih: "length links' \<le> n"
        "length links' = n \<longrightarrow> c + 1 < c' \<and> meetsThreshold ms e1 (rest ! (c' - (c + 1) - 1))"
        by auto
      show ?thesis
      proof (intro conjI impI)
        show "length links' \<le> n" by (rule ih(1))
      next
        assume "length links' = n"
        with ih(2) have a: "c + 1 < c'" and b: "meetsThreshold ms e1 (rest ! (c' - (c + 1) - 1))"
          by auto
        from a show "c < c'" by simp
        from a have "c' - c - 1 = Suc (c' - (c + 1) - 1)" by simp
        then show "meetsThreshold ms e1 ((e2 # rest) ! (c' - c - 1))" using b by simp
      qed
    qed
  qed
qed

lemma outerLoop_cap:
  "length links < n \<Longrightarrow> outerLoop u ms (Some (of_nat n)) es (links, c) = (links', c') \<Longrightarrow>
     length links' \<le> n \<and>
     (length links' = n \<longrightarrow>
        c < c' \<and> meetsThreshold ms (fst (pairsInOrder es ! (c' - c - 1)))
                                  (snd (pairsInOrder es ! (c' - c - 1))))"
proof (induction es arbitrary: links c)
  case Nil
  then show ?case by simp
next
  case (Cons e1 rest)
  obtain l1 c1 where inner: "innerLoop u ms (Some (of_nat n)) e1 rest (links, c) = (l1, c1)"
    by (cases "innerLoop u ms (Some (of_nat n)) e1 rest (links, c)") auto
  from innerLoop_trace [OF inner] have it: "c \<le> c1" "c1 - c \<le> length rest"
    "c1 - c = length rest \<or> n \<le> length l1" unfolding geNum_nat by blast+
  from innerLoop_cap [OF Cons.prems(1) inner] have ic: "length l1 \<le> n"
    "length l1 = n \<longrightarrow> c < c1 \<and> meetsThreshold ms e1 (rest ! (c1 - c - 1))" by auto
  show ?case
  proof (cases "n \<le> length l1")
    case True
    with Cons.prems inner have eq: "links' = l1" "c' = c1" by (auto simp: Let_def geNum_nat)
    from True ic(1) have full: "length l1 = n" by simp
    with ic(2) have a: "c < c1" and b: "meetsThreshold ms e1 (rest ! (c1 - c - 1))" by auto
    from a it(2) have idx: "c1 - c - 1 < length rest" by simp
    then have "pairsInOrder (e1 # rest) ! (c1 - c - 1) = (e1, rest ! (c1 - c - 1))"
      by (simp add: nth_append)
    then show ?thesis using eq ic(1) a b by simp
  next
    case False
    then have below: "length l1 < n" by simp
    from False it(3) have full: "c1 - c = length rest" by simp
    from False Cons.prems inner have run:
      "outerLoop u ms (Some (of_nat n)) rest (l1, c1) = (links', c')"
      by (auto simp: Let_def geNum_nat)
    from Cons.IH [OF below run] have ih: "length links' \<le> n"
      "length links' = n \<longrightarrow>
         c1 < c' \<and> meetsThreshold ms (fst (pairsInOrder rest ! (c' - c1 - 1)))
                                    (snd (pairsInOrder rest ! (c' - c1 - 1)))" by auto
    show ?thesis
    proof (intro conjI impI)
      show "length links' \<le> n" by (rule ih(1))
    next
      assume "length links' = n"
      with ih(2) have a: "c1 < c'"
        and b: "meetsThreshold ms (fst (pairsInOrder rest ! (c' - c1 - 1)))
                  (snd (pairsInOrder rest ! (c' - c1 - 1)))" by auto
      from a it(1) show "c < c'" by simp
      have "c' - c - 1 = length rest + (c' - c1 - 1)" using a it(1) full by simp
      then have "pairsInOrder (e1 # rest) ! (c' - c - 1) = pairsInOrder rest ! (c' - c1 - 1)"
        by (simp add: nth_append)
      then show "meetsThreshold ms (fst (pairsInOrder (e1 # rest) ! (c' - c - 1)))
                   (snd (pairsInOrder (e1 # rest) ! (c' - c - 1)))" using b by simp
    qed
  qed
qed

lemma outerLoop_start:
  assumes r: "outerLoop u ms ml es ([], 0) = (ls, c)"
  shows "ls = candidates u ms (take c (pairsInOrder es))"
    and "c \<le> length (pairsInOrder es)"
    and "c = length (pairsInOrder es) \<or> geNum (of_nat (length ls)) ml"
proof -
  from outerLoop_trace [OF r]
  have a: "c - 0 \<le> length (pairsInOrder es)"
    and b: "ls = [] @ candidates u ms (take (c - 0) (pairsInOrder es))"
    and d: "c - 0 = length (pairsInOrder es) \<or> geNum (of_nat (length ls)) ml"
    by blast+
  from b show "ls = candidates u ms (take c (pairsInOrder es))" by simp
  from a show "c \<le> length (pairsInOrder es)" by simp
  from d show "c = length (pairsInOrder es) \<or> geNum (of_nat (length ls)) ml" by simp
qed

lemma compareAll_trace:
  "fst (compareAll u ms ml es) =
     candidates u ms (take (snd (compareAll u ms ml es)) (pairsInOrder es)) \<and>
   snd (compareAll u ms ml es) \<le> length (pairsInOrder es) \<and>
   (snd (compareAll u ms ml es) = length (pairsInOrder es) \<or>
    geNum (of_nat (length (fst (compareAll u ms ml es)))) ml)"
proof -
  obtain ls c where r: "outerLoop u ms ml es ([], 0) = (ls, c)"
    by (cases "outerLoop u ms ml es ([], 0)") auto
  have e: "compareAll u ms ml es = (ls, c)" by (simp add: compareAll_def r)
  show ?thesis unfolding e fst_conv snd_conv
    using outerLoop_start [OF r] by blast
qed

lemma compareAll_take:
  assumes n: "1 \<le> n"
  shows "fst (compareAll u ms (Some (of_nat n)) es) = take n (candidates u ms (pairsInOrder es))"
proof -
  let ?P = "pairsInOrder es"
  obtain ls c where r: "outerLoop u ms (Some (of_nat n)) es ([], 0) = (ls, c)"
    by (cases "outerLoop u ms (Some (of_nat n)) es ([], 0)") auto
  have lt: "length ([] :: link list) < n" using n by simp
  from outerLoop_cap [OF lt r] have le: "length ls \<le> n" by simp
  note tr = outerLoop_start [OF r]
  have split: "candidates u ms ?P = ls @ candidates u ms (drop c ?P)"
    using tr(1) candidates_append [of u ms "take c ?P" "drop c ?P"] by simp
  from tr(3) have "take n (candidates u ms ?P) = ls"
  proof
    assume "c = length ?P"
    then show ?thesis using split le by simp
  next
    assume "geNum (of_nat (length ls)) (Some (of_nat n))"
    then have "n \<le> length ls" by (simp only: geNum_nat)
    with le have "length ls = n" by simp
    then show ?thesis using split by simp
  qed
  then show ?thesis by (simp add: compareAll_def r)
qed

subsection \<open>extractKeywords\<close>

lemma pointWords_tokensBy: "pointWords s = tokensBy sourceClass s"
proof -
  have "(\<lambda>c. if \<not> isWordChar c \<and> \<not> isSpaceChar c then CHR '' '' else c) =
        (\<lambda>c. if sourceClass c then c else CHR '' '')"
    by (auto simp: sourceClass_def)
  then show ?thesis by (simp add: pointWords_def tokensBy_def replacePunctuation_def)
qed

lemma pushWords_strings:
  "pushWords (map JStr ss) kw = Inr (kw @ concat (map pointWords ss))"
  by (induction ss arbitrary: kw) simp_all

lemma pushWords_bad: "\<not> list_all isString xs \<Longrightarrow> \<exists>e. pushWords xs kw = Inl e"
  by (induction xs kw rule: pushWords.induct) simp_all

lemma all_strings: "list_all isString xs \<Longrightarrow> \<exists>ss. xs = map JStr ss"
proof (induction xs)
  case Nil
  then show ?case by simp
next
  case (Cons x xs)
  then obtain ss where "xs = map JStr ss" by auto
  moreover from Cons.prems obtain s where "x = JStr s" by (cases x) auto
  ultimately have "x # xs = map JStr (s # ss)" by simp
  then show ?case by (rule exI [of _ "s # ss"])
qed

lemma extractField_array:
  "extractField j name kw = (case arrayField j name of None \<Rightarrow> Inr kw | Some xs \<Rightarrow> pushWords xs kw)"
  by (auto simp: extractField_def arrayField_def split: option.splits json.splits)

lemma finish_keywords:
  "take 15 (filter (\<lambda>w. \<not> has commonWords w) (newSet kws)) =
   take 15 (dedupFirst (filter (\<lambda>w. w \<notin> set stopWords) kws))"
proof -
  have "filter (\<lambda>w. \<not> has commonWords w) (newSet kws) =
        newSet (filter (\<lambda>w. w \<notin> set stopWords) kws)"
    by (simp add: has_def commonWords_def set_newSet filter_newSet)
  then show ?thesis by (simp add: newSet_dedupFirst)
qed

lemma extractKeywords_strings:
  assumes "arrayField j ''key_points'' = Some (map JStr ps)"
    and "arrayField j ''main_ideas'' = Some (map JStr ms)"
  shows "extractKeywords j = Inr (keywordsBy sourceClass ps ms)"
  using assms
  by (simp add: extractKeywords_def extractKeywordsTry_def extractField_array pushWords_strings
      finish_keywords keywordsBy_def pointWords_tokensBy [abs_def])

lemma extractKeywords_total: "\<exists>ks. extractKeywords j = Inr ks"
  by (simp add: extractKeywords_def split: sum.split)

lemma extractKeywords_bad:
  assumes "arrayField j ''key_points'' = Some xs \<or> arrayField j ''main_ideas'' = Some xs"
    and "\<not> list_all isString xs"
  shows "extractKeywords j = Inr []"
proof -
  have "\<exists>e. extractKeywordsTry j = Inl e"
  proof (cases "extractField j ''key_points'' []")
    case (Inl e)
    then show ?thesis by (simp add: extractKeywordsTry_def)
  next
    case (Inr kw)
    have kp: "arrayField j ''key_points'' \<noteq> Some xs"
    proof
      assume "arrayField j ''key_points'' = Some xs"
      then have "\<exists>e. extractField j ''key_points'' [] = Inl e"
        using pushWords_bad [OF assms(2)] by (simp add: extractField_array)
      with Inr show False by simp
    qed
    with assms(1) have "arrayField j ''main_ideas'' = Some xs" by simp
    then have "\<exists>e. extractField j ''main_ideas'' kw = Inl e"
      using pushWords_bad [OF assms(2)] by (simp add: extractField_array)
    then show ?thesis using Inr by (auto simp: extractKeywordsTry_def)
  qed
  then show ?thesis by (auto simp: extractKeywords_def)
qed

lemma extractKeywords_no_arrays:
  assumes "arrayField j ''key_points'' = None" and "arrayField j ''main_ideas'' = None"
  shows "extractKeywords j = Inr []"
  using assms
  by (simp add: extractKeywords_def extractKeywordsTry_def extractField_array newSet_def)

lemma arrayField_not_object: "\<forall>kvs. j \<noteq> JObj kvs \<Longrightarrow> arrayField j name = None"
  by (cases j) (simp_all add: arrayField_def)

lemma extractKeywords_key_points_only:
  assumes "arrayField j ''key_points'' = Some (map JStr ps)" and "arrayField j ''main_ideas'' = None"
  shows "extractKeywords j = Inr (keywordsBy sourceClass ps [])"
  using assms
  by (simp add: extractKeywords_def extractKeywordsTry_def extractField_array pushWords_strings
      finish_keywords keywordsBy_def pointWords_tokensBy [abs_def])

lemma extractKeywords_main_ideas_only:
  assumes "arrayField j ''key_points'' = None" and "arrayField j ''main_ideas'' = Some (map JStr ms)"
  shows "extractKeywords j = Inr (keywordsBy sourceClass [] ms)"
  using assms
  by (simp add: extractKeywords_def extractKeywordsTry_def extractField_array
      pushWords_strings [of _ "[]", simplified]
      finish_keywords keywordsBy_def pointWords_tokensBy [abs_def])

lemma distinct_dedupFirst: "distinct (dedupFirst xs)"
  using distinct_newSet [of xs] by (simp add: newSet_dedupFirst)

lemma extractKeywords_distinct: "extractKeywords j = Inr ks \<Longrightarrow> distinct ks"
  by (auto simp: extractKeywords_def extractKeywordsTry_def distinct_newSet
      split: sum.splits intro!: distinct_take)

subsection \<open>Batches and the handler\<close>

declare insertBatches.simps [simp del]









lemma arrayField_strings:
  "optProp j name = Some (JArr (map JStr ss)) \<Longrightarrow> arrayField j name = Some (map JStr ss)"
  by (simp add: arrayField_def)

lemma field_no_tokens:
  assumes none: "\<forall>xs s. arrayField j name = Some xs \<longrightarrow> JStr s \<in> set xs \<longrightarrow> pointWords s = []"
    and run: "extractField j name kw = Inr kw'"
  shows "kw' = kw"
proof (cases "arrayField j name")
  case None
  with run show ?thesis by (simp add: extractField_array)
next
  case (Some xs)
  with run have p: "pushWords xs kw = Inr kw'" by (simp add: extractField_array)
  have "list_all isString xs"
  proof (rule ccontr)
    assume "\<not> list_all isString xs"
    from pushWords_bad [OF this, of kw] p show False by auto
  qed
  then obtain ss where xs: "xs = map JStr ss" using all_strings by blast
  have "\<forall>s \<in> set ss. pointWords s = []" using none Some xs by auto
  then have "concat (map pointWords ss) = []" by (induction ss) simp_all
  with p xs show ?thesis by (simp add: pushWords_strings)
qed

lemma extractKeywords_no_tokens:
  assumes "\<forall>xs s. arrayField j ''key_points'' = Some xs \<longrightarrow> JStr s \<in> set xs \<longrightarrow> pointWords s = []"
    and "\<forall>xs s. arrayField j ''main_ideas'' = Some xs \<longrightarrow> JStr s \<in> set xs \<longrightarrow> pointWords s = []"
  shows "extractKeywords j = Inr []"
proof (cases "extractField j ''key_points'' []")
  case (Inl e)
  then show ?thesis by (simp add: extractKeywords_def extractKeywordsTry_def)
next
  case (Inr kw1)
  from field_no_tokens [OF assms(1) Inr] have k1: "kw1 = []" .
  show ?thesis
  proof (cases "extractField j ''main_ideas'' []")
    case (Inl e)
    then show ?thesis using Inr k1 by (simp add: extractKeywords_def extractKeywordsTry_def)
  next
    case inr2: (Inr kw2)
    from field_no_tokens [OF assms(2) inr2] have "kw2 = []" .
    then show ?thesis using Inr k1 inr2
      by (simp add: extractKeywords_def extractKeywordsTry_def newSet_def)
  qed
qed





lemma innerLoop_stop:
  "\<not> geNum (of_nat (length links)) ml \<Longrightarrow>
   innerLoop u ms ml e1 rest (links, c) = (links', c') \<Longrightarrow>
   geNum (of_nat (length links')) ml \<Longrightarrow>
   c < c' \<and> meetsThreshold ms e1 (rest ! (c' - c - 1))"
proof (induction rest arbitrary: links c)
  case Nil
  then show ?case by simp
next
  case (Cons e2 rest)
  show ?case
  proof (cases "meetsThreshold ms e1 e2")
    case False
    with Cons.prems have run: "innerLoop u ms ml e1 rest (links, c + 1) = (links', c')" by simp
    from Cons.IH [OF Cons.prems(1) run Cons.prems(3)]
    have a: "c + 1 < c'" and b: "meetsThreshold ms e1 (rest ! (c' - (c + 1) - 1))" by auto
    from a have "c' - c - 1 = Suc (c' - (c + 1) - 1)" by simp
    then show ?thesis using a b by simp
  next
    case True
    let ?pushed = "links @ [newLink u e1 e2]"
    show ?thesis
    proof (cases "geNum (of_nat (length ?pushed)) ml")
      case stop: True
      with True Cons.prems have "links' = ?pushed" "c' = c + 1" by (auto simp: Let_def)
      then show ?thesis using True by simp
    next
      case go: False
      with True Cons.prems have run:
        "innerLoop u ms ml e1 rest (?pushed, c + 1) = (links', c')" by (auto simp: Let_def)
      from Cons.IH [OF go run Cons.prems(3)]
      have a: "c + 1 < c'" and b: "meetsThreshold ms e1 (rest ! (c' - (c + 1) - 1))" by auto
      from a have "c' - c - 1 = Suc (c' - (c + 1) - 1)" by simp
      then show ?thesis using a b by simp
    qed
  qed
qed

lemma outerLoop_stop:
  "\<not> geNum (of_nat (length links)) ml \<Longrightarrow>
   outerLoop u ms ml es (links, c) = (links', c') \<Longrightarrow>
   geNum (of_nat (length links')) ml \<Longrightarrow>
   c < c' \<and> meetsThreshold ms (fst (pairsInOrder es ! (c' - c - 1)))
                              (snd (pairsInOrder es ! (c' - c - 1)))"
proof (induction es arbitrary: links c)
  case Nil
  then show ?case by simp
next
  case (Cons e1 rest)
  obtain l1 c1 where inner: "innerLoop u ms ml e1 rest (links, c) = (l1, c1)"
    by (cases "innerLoop u ms ml e1 rest (links, c)") auto
  from innerLoop_trace [OF inner] have it: "c \<le> c1" "c1 - c \<le> length rest"
    "c1 - c = length rest \<or> geNum (of_nat (length l1)) ml" by blast+
  show ?case
  proof (cases "geNum (of_nat (length l1)) ml")
    case True
    with Cons.prems inner have eq: "links' = l1" "c' = c1" by (auto simp: Let_def)
    from innerLoop_stop [OF Cons.prems(1) inner True]
    have a: "c < c1" and b: "meetsThreshold ms e1 (rest ! (c1 - c - 1))" by auto
    from a it(2) have idx: "c1 - c - 1 < length rest" by simp
    then have "pairsInOrder (e1 # rest) ! (c1 - c - 1) = (e1, rest ! (c1 - c - 1))"
      by (simp add: nth_append)
    then show ?thesis using eq a b by simp
  next
    case False
    with it(3) have full: "c1 - c = length rest" by simp
    from False Cons.prems inner have run: "outerLoop u ms ml rest (l1, c1) = (links', c')"
      by (auto simp: Let_def)
    from Cons.IH [OF False run Cons.prems(3)]
    have a: "c1 < c'"
      and b: "meetsThreshold ms (fst (pairsInOrder rest ! (c' - c1 - 1)))
                (snd (pairsInOrder rest ! (c' - c1 - 1)))" by auto
    have "c' - c - 1 = length rest + (c' - c1 - 1)" using a it(1) full by simp
    then have "pairsInOrder (e1 # rest) ! (c' - c - 1) = pairsInOrder rest ! (c' - c1 - 1)"
      by (simp add: nth_append)
    then show ?thesis using a b it(1) by simp
  qed
qed

lemma compareAll_stop:
  assumes "\<not> geNum 0 ml" and "geNum (of_nat (length (fst (compareAll u ms ml es)))) ml"
  shows "0 < snd (compareAll u ms ml es) \<and>
         meetsThreshold ms (fst (pairsInOrder es ! (snd (compareAll u ms ml es) - 1)))
                           (snd (pairsInOrder es ! (snd (compareAll u ms ml es) - 1)))"
proof -
  obtain ls c where r: "outerLoop u ms ml es ([], 0) = (ls, c)"
    by (cases "outerLoop u ms ml es ([], 0)") auto
  have e: "compareAll u ms ml es = (ls, c)" by (simp add: compareAll_def r)
  have start: "\<not> geNum (of_nat (length ([] :: link list))) ml" using assms(1) by simp
  from assms(2) have reached: "geNum (of_nat (length ls)) ml" unfolding e by simp
  from outerLoop_stop [OF start r reached] show ?thesis unfolding e by simp
qed

lemma pow2_pos: "0 < pow2 k"
  by (simp add: pow2_def)

lemma doubleOperand_nonzero: "nearestDouble r \<noteq> 0 \<Longrightarrow> doubleOperand r \<noteq> Some 0"
  using pow2_pos [of 1024] by (auto simp: doubleOperand_def Let_def)

section \<open>The properties\<close>

subsection \<open>Evaluations used by the examples\<close>

lemma twins_compared:
  "compareAll ''user-1'' (Some (15 / 100)) (Some 1000) [withA, twinA] =
     ([\<lparr> user_id = ''user-1'', source_kb_id = ''A'', target_kb_id = ''A2'', link_type = ''auto'',
          link_strength = 1,
          shared_keywords = [''machine'', ''learning'', ''models'', ''require'', ''training''] \<rparr>], 1)"
  by code_simp

lemma three_pairs:
  "candidates ''user-1'' (Some (15 / 100)) (pairsInOrder [withA, withB, twinA]) =
     [newLink ''user-1'' withA withB, newLink ''user-1'' withA twinA, newLink ''user-1'' withB twinA]"
  by code_simp

lemma three_capped:
  "compareAll ''user-1'' (Some (15 / 100)) (Some 1) [withA, withB, twinA] =
     ([newLink ''user-1'' withA withB], 1)"
  by code_simp

lemma pipeline_example:
  "keywordsBy sourceClass [''Machine learning models require training'']
     [''These models: training_data, between machine-learning systems!''] =
   [''machine'', ''learning'', ''models'', ''require'', ''training'', ''training_data'', ''systems'']"
  by code_simp

lemma short_words: "pointWords ''a tiny text'' = []"
  by code_simp



lemma example_A: "extractKeywords (summary_json entryA) =
    Inr [''machine'', ''learning'', ''models'', ''require'', ''training'']"
  by code_simp

lemma example_B: "extractKeywords (summary_json entryB) =
    Inr [''training'', ''machine'', ''learning'', ''systems'', ''needs'']"
  by code_simp

lemma example_written:
  "batchesWritten (POST coerce (exampleServices (Some [entryA, entryB]) (\<lambda>i batch. None))
     (exampleRequest None)) =
     [[\<lparr> user_id = ''user-1'', source_kb_id = ''A'', target_kb_id = ''B'', link_type = ''auto'',
          link_strength = 3 / 7 + 1 / 10,
          shared_keywords = [''machine'', ''learning'', ''training''] \<rparr>]]"
  by code_simp

lemma example_answer:
  "answer (POST coerce (exampleServices (Some [entryA, entryB]) (\<lambda>i batch. None))
     (exampleRequest None)) = generated 1 2 1"
  by code_simp

lemma example_similarity:
  "calculateSimilarity [''machine'', ''learning'', ''models'', ''require'', ''training'']
     [''training'', ''machine'', ''learning'', ''systems'', ''needs''] =
   \<lparr> sharedKeywords = [''machine'', ''learning'', ''training''], similarity = 3 / 7 \<rparr>"
  by code_simp

lemma nearestDouble_examples:
  "nearestDouble (1 / 10) = 3602879701896397 / 2 ^ 55 \<and>
   nearestDouble (15 / 100) = 5404319552844595 / 2 ^ 55 \<and>
   nearestDouble (5 / 7) = 6433713753386423 / 2 ^ 53 \<and>
   nearestDouble (7142857142857143 / 10 ^ 16) = 6433713753386423 / 2 ^ 53 \<and>
   nearestDouble (2 ^ 53 + 1) = 2 ^ 53 \<and>
   nearestDouble (2 ^ 53 + 3) = 2 ^ 53 + 4 \<and>
   nearestDouble (- (1 / 3)) = - (6004799503160661 / 2 ^ 54) \<and>
   nearestDouble 1000 = 1000"
  by code_simp

lemma default_operands:
  "doubleOperand (15 / 100) = Some (nearestDouble (15 / 100)) \<and>
   doubleOperand 1000 = Some 1000 \<and>
   nearestDouble (15 / 100) \<noteq> 0 \<and> nearestDouble 1000 \<noteq> 0"
  by code_simp

lemma near_similarity:
  "(case withKeywords [nearA, nearB] of
      Inr [a, b] \<Rightarrow> similarity (calculateSimilarity (entry_keywords a) (entry_keywords b))
    | _ \<Rightarrow> 0) = 5 / 7"
  by code_simp

lemma threshold_at_rounded_quotient:
  "map (map shared_keywords)
     (batchesWritten (POST coerce (exampleServices (Some [nearA, nearB]) (\<lambda>i batch. None))
        (exampleRequest (Some (JObj [(''minSimilarity'', JNum (7142857142857143 / 10 ^ 16))]))))) =
     [[[''alpha'', ''bravo'', ''charlie'', ''delta'', ''hotel'']]]"
  by code_simp

lemma sparse_similarity:
  "(case withKeywords [sparseA, sparseB] of
      Inr [a, b] \<Rightarrow> similarity (calculateSimilarity (entry_keywords a) (entry_keywords b))
    | _ \<Rightarrow> 0) = 2 / 28"
  by code_simp

lemma zero_string_kept:
  "parseOptions (Some (JObj [(''minSimilarity'', JStr ''0''), (''maxLinks'', JStr ''0'')])) =
     Inr (JStr ''0'', JStr ''0'') \<and>
   toNumber coerceDigits (JStr ''0'') = Some 0"
  by code_simp

lemma zero_string_links:
  "map (map shared_keywords)
     (batchesWritten (POST coerceDigits (exampleServices (Some [sparseA, sparseB]) (\<lambda>i batch. None))
        (exampleRequest (Some (JObj [(''minSimilarity'', JStr ''0'')]))))) =
     [[[''common'', ''shared'']]]"
  by code_simp

lemma zero_number_links:
  "batchesWritten (POST coerceDigits (exampleServices (Some [sparseA, sparseB]) (\<lambda>i batch. None))
        (exampleRequest (Some (JObj [(''minSimilarity'', JNum 0)])))) = []"
  by code_simp

subsection \<open>The threshold gate\<close>

text \<open>
  Claim C1. The loops compare the pairs in iteration order and stop early only by
  the cap: the pairs compared are the first \<open>comparisons\<close> pairs, and either all
  pairs were compared or the cap test holds of the candidates; when the cap
  test does not already hold of the empty list, it comes to hold only by the
  candidate of the last pair compared. The candidates are exactly the links of
  the compared pairs whose similarity, as \<^verbatim>\<open>calculateSimilarity\<close> returns it (the
  double of the quotient, before any category boost), is at least
  \<^verbatim>\<open>minSimilarity\<close> and which share at least 2 keywords, in the same order. The
  boost of 1/10 only enters the strength of a link that is built, after the
  test. Against a number \<open>m\<close> the test is \<open>m \<le> similarity\<close>; against \<^verbatim>\<open>NaN\<close> it
  fails.
\<close>

theorem gate_uses_pre_bonus_similarity:
  "fst (compareAll userId minSimilarity maxLinks entries) =
     map (\<lambda>(entry1, entry2). newLink userId entry1 entry2)
       (filter (\<lambda>(entry1, entry2).
            geNum (nearestDouble
                    (similarity (calculateSimilarity (entry_keywords entry1) (entry_keywords entry2))))
              minSimilarity \<and>
            2 \<le> length (sharedKeywords
                   (calculateSimilarity (entry_keywords entry1) (entry_keywords entry2))))
          (take (snd (compareAll userId minSimilarity maxLinks entries)) (pairsInOrder entries))) \<and>
   snd (compareAll userId minSimilarity maxLinks entries) \<le> length (pairsInOrder entries) \<and>
   (snd (compareAll userId minSimilarity maxLinks entries) = length (pairsInOrder entries) \<or>
    geNum (of_nat (length (fst (compareAll userId minSimilarity maxLinks entries)))) maxLinks) \<and>
   (\<not> geNum 0 maxLinks \<and>
    geNum (of_nat (length (fst (compareAll userId minSimilarity maxLinks entries)))) maxLinks \<longrightarrow>
      0 < snd (compareAll userId minSimilarity maxLinks entries) \<and>
      meetsThreshold minSimilarity
        (fst (pairsInOrder entries ! (snd (compareAll userId minSimilarity maxLinks entries) - 1)))
        (snd (pairsInOrder entries ! (snd (compareAll userId minSimilarity maxLinks entries) - 1)))) \<and>
   link_strength (newLink userId entry1 entry2) =
     min (similarity (calculateSimilarity (entry_keywords entry1) (entry_keywords entry2)) +
          (if category entry1 = category entry2 then 1 / 10 else 0)) 1 \<and>
   geNum x (Some m) = (m \<le> x) \<and> \<not> geNum x None"
proof -
  let ?r = "compareAll userId minSimilarity maxLinks entries"
  note tr = compareAll_trace [of userId minSimilarity maxLinks entries]
  have a: "fst ?r =
     map (\<lambda>(entry1, entry2). newLink userId entry1 entry2)
       (filter (\<lambda>(entry1, entry2).
            geNum (nearestDouble
                    (similarity (calculateSimilarity (entry_keywords entry1) (entry_keywords entry2))))
              minSimilarity \<and>
            2 \<le> length (sharedKeywords
                   (calculateSimilarity (entry_keywords entry1) (entry_keywords entry2))))
          (take (snd ?r) (pairsInOrder entries)))"
    using tr by (simp add: candidates_def meetsThreshold_def Let_def)
  have b: "snd ?r \<le> length (pairsInOrder entries)" using tr by blast
  have c: "snd ?r = length (pairsInOrder entries) \<or> geNum (of_nat (length (fst ?r))) maxLinks"
    using tr by blast
  have d: "\<not> geNum 0 maxLinks \<and> geNum (of_nat (length (fst ?r))) maxLinks \<longrightarrow>
      0 < snd ?r \<and>
      meetsThreshold minSimilarity (fst (pairsInOrder entries ! (snd ?r - 1)))
        (snd (pairsInOrder entries ! (snd ?r - 1)))"
    using compareAll_stop [of maxLinks userId minSimilarity entries] by blast
  have e: "link_strength (newLink userId entry1 entry2) =
     min (similarity (calculateSimilarity (entry_keywords entry1) (entry_keywords entry2)) +
          (if category entry1 = category entry2 then 1 / 10 else 0)) 1"
    by (simp add: newLink_def Let_def)
  have f: "geNum x (Some m) = (m \<le> x)" "\<not> geNum x None" by (simp_all add: geNum_def)
  show ?thesis using a b c d e f by blast
qed

theorem gate_uses_pre_bonus_similarity_witness:
  "\<not> geNum 0 (Some 1) \<and>
   geNum (of_nat (length (fst (compareAll ''user-1'' (Some (15 / 100)) (Some 1) [withA, withB, twinA]))))
     (Some 1) \<and>
   snd (compareAll ''user-1'' (Some (15 / 100)) (Some 1) [withA, withB, twinA]) = 1 \<and>
   meetsThreshold (Some (15 / 100))
     (fst (pairsInOrder [withA, withB, twinA] !
        (snd (compareAll ''user-1'' (Some (15 / 100)) (Some 1) [withA, withB, twinA]) - 1)))
     (snd (pairsInOrder [withA, withB, twinA] !
        (snd (compareAll ''user-1'' (Some (15 / 100)) (Some 1) [withA, withB, twinA]) - 1)))"
proof -
  let ?r = "compareAll ''user-1'' (Some (15 / 100)) (Some 1) [withA, withB, twinA]"
  have n: "\<not> geNum 0 (Some 1)" by (simp add: geNum_def)
  have g: "geNum (of_nat (length (fst ?r))) (Some 1)" unfolding three_capped by (simp add: geNum_def)
  have s: "snd ?r = 1" unfolding three_capped by simp
  from gate_uses_pre_bonus_similarity [of "''user-1''" "Some (15 / 100)" "Some 1" "[withA, withB, twinA]"]
    n g
  have "meetsThreshold (Some (15 / 100)) (fst (pairsInOrder [withA, withB, twinA] ! (snd ?r - 1)))
          (snd (pairsInOrder [withA, withB, twinA] ! (snd ?r - 1)))" by blast
  with n g s show ?thesis by blast
qed

subsection \<open>Clamping\<close>

text \<open>
  Claim C3. Every candidate has a strength between 0 and 1, whatever the
  threshold and the cap. The example compares two entries with the same
  keywords and the same category: similarity 1 plus the boost exceeds 1 and the
  strength is 1.
\<close>

theorem link_strength_in_unit_interval:
  "\<forall>l \<in> set (fst (compareAll userId minSimilarity maxLinks entries)).
     0 \<le> link_strength l \<and> link_strength l \<le> 1"
proof
  fix l
  assume "l \<in> set (fst (compareAll userId minSimilarity maxLinks entries))"
  then have "l \<in> set (candidates userId minSimilarity
      (take (snd (compareAll userId minSimilarity maxLinks entries)) (pairsInOrder entries)))"
    using compareAll_trace [of userId minSimilarity maxLinks entries] by simp
  then obtain a b where "l = newLink userId a b" by (auto simp: candidates_def)
  then show "0 \<le> link_strength l \<and> link_strength l \<le> 1" using newLink_strength by simp
qed

theorem link_strength_in_unit_interval_witness:
  "similarity (calculateSimilarity (entry_keywords withA) (entry_keywords twinA)) + 1 / 10 > 1 \<and>
   length (fst (compareAll ''user-1'' (Some (15 / 100)) (Some 1000) [withA, twinA])) = 1 \<and>
   0 \<le> link_strength (hd (fst (compareAll ''user-1'' (Some (15 / 100)) (Some 1000) [withA, twinA]))) \<and>
   link_strength (hd (fst (compareAll ''user-1'' (Some (15 / 100)) (Some 1000) [withA, twinA]))) \<le> 1 \<and>
   link_strength (hd (fst (compareAll ''user-1'' (Some (15 / 100)) (Some 1000) [withA, twinA]))) = 1"
proof -
  let ?ls = "fst (compareAll ''user-1'' (Some (15 / 100)) (Some 1000) [withA, twinA])"
  have s: "similarity (calculateSimilarity (entry_keywords withA) (entry_keywords twinA)) + 1 / 10 > 1"
    by code_simp
  have n: "length ?ls = 1" unfolding twins_compared by simp
  then have "hd ?ls \<in> set ?ls" by (cases ?ls) simp_all
  with link_strength_in_unit_interval [of "''user-1''" "Some (15 / 100)" "Some 1000" "[withA, twinA]"]
  have b: "0 \<le> link_strength (hd ?ls)" "link_strength (hd ?ls) \<le> 1" by blast+
  have o: "link_strength (hd ?ls) = 1" unfolding twins_compared by simp
  show ?thesis using s n b o by blast
qed

subsection \<open>The similarity of two keyword lists\<close>

text \<open>
  Claim C4. \<^verbatim>\<open>calculateSimilarity\<close> returns as shared keywords the elements of the
  first list that occur in the second, in the order of the first list; when the
  union of the two lists is not empty the similarity is the number of shared
  keywords divided by the number of distinct keywords of both lists, and the
  divisor is not zero; when both lists are empty the similarity is 0. When the
  first list has no repetition, as every list that \<^verbatim>\<open>extractKeywords\<close> returns,
  the number of shared keywords is the size of the intersection of the two sets
  and the quotient is the Jaccard coefficient.
\<close>

theorem calculateSimilarity_is_jaccard:
  "sharedKeywords (calculateSimilarity keywords1 keywords2) =
     filter (\<lambda>k. k \<in> set keywords2) keywords1 \<and>
   (set keywords1 \<union> set keywords2 \<noteq> {} \<longrightarrow>
      card (set keywords1 \<union> set keywords2) \<noteq> 0 \<and>
      similarity (calculateSimilarity keywords1 keywords2) =
        of_nat (length (sharedKeywords (calculateSimilarity keywords1 keywords2))) /
        of_nat (card (set keywords1 \<union> set keywords2))) \<and>
   (keywords1 = [] \<and> keywords2 = [] \<longrightarrow> similarity (calculateSimilarity keywords1 keywords2) = 0) \<and>
   (distinct keywords1 \<longrightarrow>
      length (sharedKeywords (calculateSimilarity keywords1 keywords2)) =
        card (set keywords1 \<inter> set keywords2))"
  by (auto simp: calc_shared calc_similarity distinct_shared_card)

theorem calculateSimilarity_is_jaccard_witness:
  "set (entry_keywords withA) \<union> set (entry_keywords withB) \<noteq> {} \<and>
   distinct (entry_keywords withA) \<and>
   similarity (calculateSimilarity (entry_keywords withA) (entry_keywords withB)) =
     of_nat (card (set (entry_keywords withA) \<inter> set (entry_keywords withB))) /
     of_nat (card (set (entry_keywords withA) \<union> set (entry_keywords withB))) \<and>
   similarity (calculateSimilarity (entry_keywords withA) (entry_keywords withB)) = 3 / 7 \<and>
   similarity (calculateSimilarity [] []) = 0"
proof -
  let ?a = "entry_keywords withA" and ?b = "entry_keywords withB"
  have ne: "set ?a \<union> set ?b \<noteq> {}" by (simp add: withA_def)
  have d: "distinct ?a" by (simp add: withA_def)
  have v: "similarity (calculateSimilarity ?a ?b) = 3 / 7" by code_simp
  from calculateSimilarity_is_jaccard [of ?a ?b] ne d
  have j: "similarity (calculateSimilarity ?a ?b) =
             of_nat (length (sharedKeywords (calculateSimilarity ?a ?b))) /
             of_nat (card (set ?a \<union> set ?b))"
    and c: "length (sharedKeywords (calculateSimilarity ?a ?b)) = card (set ?a \<inter> set ?b)"
    by blast+
  from j have j': "similarity (calculateSimilarity ?a ?b) =
             of_nat (card (set ?a \<inter> set ?b)) / of_nat (card (set ?a \<union> set ?b))"
    unfolding c .
  from calculateSimilarity_is_jaccard [of "[]" "[]"]
  have z: "similarity (calculateSimilarity [] []) = 0" by blast
  show ?thesis using ne d j' v z by blast
qed

subsection \<open>The cap\<close>

text \<open>
  Claim C5, as stated, fails for a cap below 1: the cap is tested only after a
  link has been pushed. With \<^verbatim>\<open>maxLinks\<close> equal to \<open>-1\<close>, which the request body can
  carry, the entries A and B give one candidate.
\<close>

theorem cap_counterexample:
  "parseOptions (Some (JObj [(''maxLinks'', JNum (- 1))])) = Inr (JNum (15 / 100), JNum (- 1)) \<and>
   toNumber (\<lambda>v. None) (JNum (- 1)) = Some (- 1) \<and>
   length (fst (compareAll ''user-1'' (Some (15 / 100)) (Some (- 1)) [withA, withB])) = 1 \<and>
   \<not> rat_of_nat (length (fst (compareAll ''user-1'' (Some (15 / 100)) (Some (- 1)) [withA, withB]))) \<le> - 1"
proof -
  have p: "parseOptions (Some (JObj [(''maxLinks'', JNum (- 1))])) = Inr (JNum (15 / 100), JNum (- 1))"
    by code_simp
  have l: "length (fst (compareAll ''user-1'' (Some (15 / 100)) (Some (- 1)) [withA, withB])) = 1"
    by code_simp
  have t: "toNumber (\<lambda>v. None) (JNum (- 1)) = Some (- 1)"
    by code_simp
  show ?thesis using p l t by simp
qed

text \<open>
  Claim C5, amended. For every cap that is a positive integer \<open>n\<close> the candidates
  are the first \<open>n\<close> candidates of all pairs in iteration order (the first entry
  with each later one, then the second, and so on), so there are at most \<open>n\<close> of
  them; and when \<open>n\<close> candidates have been found, the last pair compared is the
  one that gave the last candidate: both loops stop there.
\<close>

theorem cap_truncates_in_iteration_order:
  assumes "1 \<le> n"
  shows "fst (compareAll userId minSimilarity (Some (of_nat n)) entries) =
           take n (candidates userId minSimilarity (pairsInOrder entries)) \<and>
         length (fst (compareAll userId minSimilarity (Some (of_nat n)) entries)) \<le> n \<and>
         (length (fst (compareAll userId minSimilarity (Some (of_nat n)) entries)) = n \<longrightarrow>
            0 < snd (compareAll userId minSimilarity (Some (of_nat n)) entries) \<and>
            meetsThreshold minSimilarity
              (fst (pairsInOrder entries ! (snd (compareAll userId minSimilarity (Some (of_nat n)) entries) - 1)))
              (snd (pairsInOrder entries ! (snd (compareAll userId minSimilarity (Some (of_nat n)) entries) - 1))))"
proof -
  obtain ls c where r: "outerLoop userId minSimilarity (Some (of_nat n)) entries ([], 0) = (ls, c)"
    by (cases "outerLoop userId minSimilarity (Some (of_nat n)) entries ([], 0)") auto
  have e: "compareAll userId minSimilarity (Some (of_nat n)) entries = (ls, c)"
    by (simp add: compareAll_def r)
  have lt: "length ([] :: link list) < n" using assms by simp
  from outerLoop_cap [OF lt r]
  have "length ls \<le> n"
    and "length ls = n \<longrightarrow> 0 < c \<and>
           meetsThreshold minSimilarity (fst (pairsInOrder entries ! (c - 0 - 1)))
             (snd (pairsInOrder entries ! (c - 0 - 1)))"
    by blast+
  then show ?thesis
    using compareAll_take [OF assms, of userId minSimilarity entries]
    unfolding e by simp
qed

theorem cap_truncates_in_iteration_order_witness:
  "(1 :: nat) \<le> 1 \<and>
   length (candidates ''user-1'' (Some (15 / 100)) (pairsInOrder [withA, withB, twinA])) = 3 \<and>
   fst (compareAll ''user-1'' (Some (15 / 100)) (Some (of_nat 1)) [withA, withB, twinA]) =
     take 1 (candidates ''user-1'' (Some (15 / 100)) (pairsInOrder [withA, withB, twinA])) \<and>
   length (fst (compareAll ''user-1'' (Some (15 / 100)) (Some (of_nat 1)) [withA, withB, twinA])) = 1 \<and>
   snd (compareAll ''user-1'' (Some (15 / 100)) (Some (of_nat 1)) [withA, withB, twinA]) = 1"
proof -
  let ?r = "compareAll ''user-1'' (Some (15 / 100)) (Some (of_nat 1)) [withA, withB, twinA]"
  have one: "(1 :: nat) \<le> 1" by simp
  have three: "length (candidates ''user-1'' (Some (15 / 100)) (pairsInOrder [withA, withB, twinA])) = 3"
    unfolding three_pairs by simp
  have c: "snd ?r = 1" and l: "length (fst ?r) = 1"
    unfolding of_nat_1 three_capped by simp_all
  from cap_truncates_in_iteration_order [OF one, of "''user-1''" "Some (15 / 100)" "[withA, withB, twinA]"]
  have t: "fst ?r = take 1 (candidates ''user-1'' (Some (15 / 100)) (pairsInOrder [withA, withB, twinA]))"
    by blast
  show ?thesis using one three t l c by blast
qed

subsection \<open>The keyword pipeline\<close>

text \<open>
  Claim C2, as stated, fails: the source keeps the word characters of the regular
  expression, which are the ASCII letters, the ASCII digits and the underscore.
  An underscore is neither a letter nor a digit, so the pipeline of the claim
  splits \<open>hello_world\<close> into two tokens, and the source returns it as one keyword.
\<close>

theorem keyword_class_counterexample:
  "extractKeywords (JObj [(''key_points'', JArr [JStr ''hello_world'']), (''main_ideas'', JArr [])]) =
     Inr [''hello_world''] \<and>
   keywordsBy statedClass [''hello_world''] [] = [''hello'', ''world''] \<and>
   extractKeywords (JObj [(''key_points'', JArr [JStr ''hello_world'']), (''main_ideas'', JArr [])]) \<noteq>
     Inr (keywordsBy statedClass [''hello_world''] [])"
proof -
  have a: "extractKeywords (JObj [(''key_points'', JArr [JStr ''hello_world'']), (''main_ideas'', JArr [])]) =
     Inr [''hello_world'']" by code_simp
  have b: "keywordsBy statedClass [''hello_world''] [] = [''hello'', ''world'']" by code_simp
  show ?thesis unfolding a b by simp
qed

text \<open>
  Claim C2, amended. For every summary whose key-points and main-ideas fields are
  arrays of strings, \<^verbatim>\<open>extractKeywords\<close> returns exactly the list obtained by:
  lower-casing each element, replacing every character that is not an ASCII
  letter, an ASCII digit, an underscore or white space with a single space,
  splitting on runs of white space, keeping only tokens longer than 4
  characters, appending key-point tokens before main-idea tokens, removing the
  stop words, deduplicating with the first occurrence kept, and truncating to
  the first 15 tokens.
\<close>

theorem extractKeywords_is_pipeline:
  assumes "optProp summaryJson ''key_points'' = Some (JArr (map JStr keyPoints))"
    and "optProp summaryJson ''main_ideas'' = Some (JArr (map JStr mainIdeas))"
  shows "extractKeywords summaryJson = Inr (keywordsBy sourceClass keyPoints mainIdeas)"
  using assms by (intro extractKeywords_strings arrayField_strings)

theorem extractKeywords_is_pipeline_witness:
  "extractKeywords (JObj [(''key_points'', JArr [JStr ''Machine learning models require training'']),
                          (''main_ideas'', JArr [JStr ''These models: training_data, between machine-learning systems!''])]) =
     Inr [''machine'', ''learning'', ''models'', ''require'', ''training'', ''training_data'', ''systems'']"
proof -
  let ?j = "JObj [(''key_points'', JArr [JStr ''Machine learning models require training'']),
                  (''main_ideas'', JArr [JStr ''These models: training_data, between machine-learning systems!''])]"
  have k: "optProp ?j ''key_points'' = Some (JArr (map JStr [''Machine learning models require training'']))"
    by simp
  have m: "optProp ?j ''main_ideas'' =
             Some (JArr (map JStr [''These models: training_data, between machine-learning systems!'']))"
    by simp
  show ?thesis unfolding extractKeywords_is_pipeline [OF k m] pipeline_example ..
qed

subsection \<open>The worked example\<close>

text \<open>
  Claim C6. With the entries A and B of the example, fetched in this order, both
  of category Technology, and no option in the request (threshold 0.15, cap
  1000), the handler hands exactly one link to the store: from A to B, with the
  shared keywords machine, learning, training in the order of A's keywords and
  the strength 3/7 + 1/10.
\<close>

theorem worked_example:
  "extractKeywords (summary_json entryA) =
     Inr [''machine'', ''learning'', ''models'', ''require'', ''training''] \<and>
   extractKeywords (summary_json entryB) =
     Inr [''training'', ''machine'', ''learning'', ''systems'', ''needs''] \<and>
   calculateSimilarity [''machine'', ''learning'', ''models'', ''require'', ''training'']
     [''training'', ''machine'', ''learning'', ''systems'', ''needs''] =
     \<lparr> sharedKeywords = [''machine'', ''learning'', ''training''], similarity = 3 / 7 \<rparr> \<and>
   category entryA = Some ''Technology'' \<and> category entryB = Some ''Technology'' \<and>
   parseOptions None = Inr (JNum (15 / 100), JNum 1000) \<and>
   batchesWritten (POST coerce (exampleServices (Some [entryA, entryB]) (\<lambda>i batch. None))
     (exampleRequest None)) =
     [[\<lparr> user_id = ''user-1'', source_kb_id = ''A'', target_kb_id = ''B'', link_type = ''auto'',
          link_strength = 3 / 7 + 1 / 10,
          shared_keywords = [''machine'', ''learning'', ''training''] \<rparr>]] \<and>
   answer (POST coerce (exampleServices (Some [entryA, entryB]) (\<lambda>i batch. None))
     (exampleRequest None)) = generated 1 2 1"
proof -
  have c: "category entryA = Some ''Technology''" "category entryB = Some ''Technology''"
    by (simp_all add: entryA_def entryB_def)
  have p: "parseOptions None = Inr (JNum (15 / 100), JNum 1000)"
    by (simp add: parseOptions_def getProp_def orDefault_def)
  show ?thesis
    using example_A example_B example_similarity c p example_written example_answer
    by blast
qed

subsection \<open>Malformed summaries\<close>

text \<open>
  Claim C7, as stated, fails: a summary whose key-points field has the wrong type
  (a number) and whose main-ideas field is an array of strings is not turned into
  the empty keyword set; the field of the wrong type is skipped and the other
  field is extracted.
\<close>

theorem malformed_field_counterexample:
  "optProp (JObj [(''key_points'', JNum 5), (''main_ideas'', JArr [JStr ''Machine learning''])])
     ''key_points'' = Some (JNum 5) \<and>
   extractKeywords (JObj [(''key_points'', JNum 5), (''main_ideas'', JArr [JStr ''Machine learning''])]) =
     Inr [''machine'', ''learning''] \<and>
   extractKeywords (JObj [(''key_points'', JNum 5), (''main_ideas'', JArr [JStr ''Machine learning''])]) \<noteq>
     Inr []"
proof -
  have a: "extractKeywords (JObj [(''key_points'', JNum 5), (''main_ideas'', JArr [JStr ''Machine learning''])]) =
     Inr [''machine'', ''learning'']" by code_simp
  show ?thesis unfolding a by simp
qed

text \<open>
  Claim C7, amended. For every input value \<^verbatim>\<open>extractKeywords\<close> returns and never
  throws. It returns the empty list when the summary is not an object (null
  included), when the key-points or the main-ideas field is an array with an
  element that is not a string (whatever the other elements gave), when neither
  field is an array, and when no string of the arrays gives a token. A field
  that is absent or not an array is skipped without affecting the other field:
  the result is then the pipeline applied to the other field alone.
\<close>

theorem extractKeywords_never_throws:
  "(\<exists>ks. extractKeywords summaryJson = Inr ks) \<and>
   ((\<forall>kvs. summaryJson \<noteq> JObj kvs) \<longrightarrow> extractKeywords summaryJson = Inr []) \<and>
   ((arrayField summaryJson ''key_points'' = Some xs \<or> arrayField summaryJson ''main_ideas'' = Some xs) \<and>
      \<not> list_all isString xs \<longrightarrow> extractKeywords summaryJson = Inr []) \<and>
   (arrayField summaryJson ''key_points'' = None \<and> arrayField summaryJson ''main_ideas'' = None \<longrightarrow>
      extractKeywords summaryJson = Inr []) \<and>
   ((\<forall>ys s. arrayField summaryJson ''key_points'' = Some ys \<longrightarrow> JStr s \<in> set ys \<longrightarrow> pointWords s = []) \<and>
    (\<forall>ys s. arrayField summaryJson ''main_ideas'' = Some ys \<longrightarrow> JStr s \<in> set ys \<longrightarrow> pointWords s = [])
      \<longrightarrow> extractKeywords summaryJson = Inr []) \<and>
   (arrayField summaryJson ''key_points'' = None \<and>
    arrayField summaryJson ''main_ideas'' = Some (map JStr mainIdeas) \<longrightarrow>
      extractKeywords summaryJson = Inr (keywordsBy sourceClass [] mainIdeas)) \<and>
   (arrayField summaryJson ''key_points'' = Some (map JStr keyPoints) \<and>
    arrayField summaryJson ''main_ideas'' = None \<longrightarrow>
      extractKeywords summaryJson = Inr (keywordsBy sourceClass keyPoints []))"
proof (intro conjI impI)
  show "\<exists>ks. extractKeywords summaryJson = Inr ks" by (rule extractKeywords_total)
next
  assume "\<forall>kvs. summaryJson \<noteq> JObj kvs"
  then show "extractKeywords summaryJson = Inr []"
    by (intro extractKeywords_no_arrays arrayField_not_object)
next
  assume "(arrayField summaryJson ''key_points'' = Some xs \<or>
           arrayField summaryJson ''main_ideas'' = Some xs) \<and> \<not> list_all isString xs"
  then show "extractKeywords summaryJson = Inr []" using extractKeywords_bad by blast
next
  assume "arrayField summaryJson ''key_points'' = None \<and> arrayField summaryJson ''main_ideas'' = None"
  then show "extractKeywords summaryJson = Inr []" using extractKeywords_no_arrays by blast
next
  assume "(\<forall>ys s. arrayField summaryJson ''key_points'' = Some ys \<longrightarrow> JStr s \<in> set ys \<longrightarrow> pointWords s = []) \<and>
    (\<forall>ys s. arrayField summaryJson ''main_ideas'' = Some ys \<longrightarrow> JStr s \<in> set ys \<longrightarrow> pointWords s = [])"
  then show "extractKeywords summaryJson = Inr []" using extractKeywords_no_tokens by blast
next
  assume "arrayField summaryJson ''key_points'' = None \<and>
    arrayField summaryJson ''main_ideas'' = Some (map JStr mainIdeas)"
  then show "extractKeywords summaryJson = Inr (keywordsBy sourceClass [] mainIdeas)"
    using extractKeywords_main_ideas_only by blast
next
  assume "arrayField summaryJson ''key_points'' = Some (map JStr keyPoints) \<and>
    arrayField summaryJson ''main_ideas'' = None"
  then show "extractKeywords summaryJson = Inr (keywordsBy sourceClass keyPoints [])"
    using extractKeywords_key_points_only by blast
qed

theorem extractKeywords_never_throws_witness:
  "extractKeywords JNull = Inr [] \<and>
   extractKeywords (JStr ''Machine learning'') = Inr [] \<and>
   extractKeywords (JObj [(''key_points'', JArr [JStr ''Machine learning'', JNum 1])]) = Inr [] \<and>
   extractKeywords (JObj [(''key_points'', JStr ''Machine learning''), (''main_ideas'', JNull)]) = Inr [] \<and>
   extractKeywords (JObj [(''key_points'', JArr [JStr ''a tiny text''])]) = Inr [] \<and>
   extractKeywords (JObj [(''key_points'', JNum 5), (''main_ideas'', JArr [JStr ''Machine learning''])]) =
     Inr (keywordsBy sourceClass [] [''Machine learning'']) \<and>
   extractKeywords (JObj [(''key_points'', JArr [JStr ''Machine learning''])]) =
     Inr (keywordsBy sourceClass [''Machine learning''] [])"
proof -
  have n1: "\<forall>kvs. JNull \<noteq> JObj kvs" by simp
  have n2: "\<forall>kvs. JStr ''Machine learning'' \<noteq> JObj kvs" by simp
  from extractKeywords_never_throws [of JNull] n1
  have a: "extractKeywords JNull = Inr []" by blast
  from extractKeywords_never_throws [of "JStr ''Machine learning''"] n2
  have b: "extractKeywords (JStr ''Machine learning'') = Inr []" by blast
  let ?bad = "JObj [(''key_points'', JArr [JStr ''Machine learning'', JNum 1])]"
  have c1: "arrayField ?bad ''key_points'' = Some [JStr ''Machine learning'', JNum 1]"
    by (simp add: arrayField_def)
  have c2: "\<not> list_all isString [JStr ''Machine learning'', JNum 1]" by simp
  from extractKeywords_never_throws [of ?bad "[JStr ''Machine learning'', JNum 1]"] c1 c2
  have c: "extractKeywords ?bad = Inr []" by blast
  let ?none = "JObj [(''key_points'', JStr ''Machine learning''), (''main_ideas'', JNull)]"
  have d1: "arrayField ?none ''key_points'' = None" "arrayField ?none ''main_ideas'' = None"
    by (simp_all add: arrayField_def)
  from extractKeywords_never_throws [of ?none] d1
  have d: "extractKeywords ?none = Inr []" by blast
  let ?short = "JObj [(''key_points'', JArr [JStr ''a tiny text''])]"
  have e1: "\<forall>ys s. arrayField ?short ''key_points'' = Some ys \<longrightarrow> JStr s \<in> set ys \<longrightarrow> pointWords s = []"
    by (auto simp: arrayField_def short_words)
  have e2: "\<forall>ys s. arrayField ?short ''main_ideas'' = Some ys \<longrightarrow> JStr s \<in> set ys \<longrightarrow> pointWords s = []"
    by (simp add: arrayField_def)
  from extractKeywords_never_throws [of ?short] e1 e2
  have e: "extractKeywords ?short = Inr []" by blast
  let ?mi = "JObj [(''key_points'', JNum 5), (''main_ideas'', JArr [JStr ''Machine learning''])]"
  have f1: "arrayField ?mi ''key_points'' = None"
    "arrayField ?mi ''main_ideas'' = Some (map JStr [''Machine learning''])"
    by (simp_all add: arrayField_def)
  from extractKeywords_never_throws [of ?mi _ "[''Machine learning'']"] f1
  have f: "extractKeywords ?mi = Inr (keywordsBy sourceClass [] [''Machine learning''])" by blast
  let ?kp = "JObj [(''key_points'', JArr [JStr ''Machine learning''])]"
  have g1: "arrayField ?kp ''key_points'' = Some (map JStr [''Machine learning''])"
    "arrayField ?kp ''main_ideas'' = None"
    by (simp_all add: arrayField_def)
  from extractKeywords_never_throws [of ?kp _ _ "[''Machine learning'']"] g1
  have g: "extractKeywords ?kp = Inr (keywordsBy sourceClass [''Machine learning''] [])" by blast
  show ?thesis using a b c d e f g by blast
qed

subsection \<open>No entries\<close>



subsection \<open>Batch failures\<close>



subsection \<open>Defaults of the options\<close>

text \<open>
  Claim C10, as stated, fails in its last part: the string \<open>0\<close> is truthy, so \<^verbatim>\<open>||\<close>
  keeps it, and \<^verbatim>\<open>>=\<close> converts it to the number 0. With \<^verbatim>\<open>minSimilarity\<close> sent as
  that string, a pair of similarity 2/28 with two shared keywords gets a link;
  with the number 0 the default 0.15 applies and it gets none.
\<close>

theorem zero_string_counterexample:
  "parseOptions (Some (JObj [(''minSimilarity'', JStr ''0''), (''maxLinks'', JStr ''0'')])) =
     Inr (JStr ''0'', JStr ''0'') \<and>
   toNumber coerceDigits (JStr ''0'') = Some 0 \<and>
   map (map shared_keywords)
     (batchesWritten (POST coerceDigits (exampleServices (Some [sparseA, sparseB]) (\<lambda>i batch. None))
        (exampleRequest (Some (JObj [(''minSimilarity'', JStr ''0'')]))))) =
     [[[''common'', ''shared'']]] \<and>
   batchesWritten (POST coerceDigits (exampleServices (Some [sparseA, sparseB]) (\<lambda>i batch. None))
        (exampleRequest (Some (JObj [(''minSimilarity'', JNum 0)])))) = []"
  using zero_string_kept zero_string_links zero_number_links by blast

text \<open>
  Claim C10, amended. For every request body that is not \<^verbatim>\<open>null\<close>, parsing the
  options returns; a \<^verbatim>\<open>minSimilarity\<close> that is absent or falsy (\<^verbatim>\<open>null\<close>, \<^verbatim>\<open>false\<close>,
  the number 0, the empty string) is replaced by 0.15 and a \<^verbatim>\<open>maxLinks\<close> that is
  absent or falsy by 1000; the two values that result are truthy, and when
  they are numbers the loops compare against a number other than 0. A body
  that cannot be parsed gives both defaults. (A truthy value of another type
  is kept as it is.)
\<close>

theorem falsy_options_replaced_by_defaults:
  assumes "parsed \<noteq> JNull"
  shows "(\<exists>minSimilarity maxLinks.
            parseOptions (Some parsed) = Inr (minSimilarity, maxLinks) \<and>
            (falsy (optProp parsed ''minSimilarity'') \<longrightarrow>
               minSimilarity = JNum (15 / 100) \<and>
               toNumber coerce minSimilarity = Some (nearestDouble (15 / 100))) \<and>
            (falsy (optProp parsed ''maxLinks'') \<longrightarrow>
               maxLinks = JNum 1000 \<and> toNumber coerce maxLinks = Some 1000) \<and>
            truthy minSimilarity \<and> truthy maxLinks \<and>
            (\<forall>r. minSimilarity = JNum r \<longrightarrow> toNumber coerce minSimilarity \<noteq> Some 0) \<and>
            (\<forall>r. maxLinks = JNum r \<longrightarrow> toNumber coerce maxLinks \<noteq> Some 0)) \<and>
         falsy None \<and> falsy (Some JNull) \<and> falsy (Some (JBool False)) \<and>
         falsy (Some (JNum 0)) \<and> falsy (Some (JStr [])) \<and>
         parseOptions None = Inr (JNum (15 / 100), JNum 1000)"
proof -
  let ?ms = "orDefault (optProp parsed ''minSimilarity'') (JNum (15 / 100))"
  let ?ml = "orDefault (optProp parsed ''maxLinks'') (JNum 1000)"
  have p: "parseOptions (Some parsed) = Inr (?ms, ?ml)"
    using assms by (cases parsed) (simp_all add: parseOptions_def getProp_def)
  have d: "truthy (orDefault x (JNum r))" if "nearestDouble r \<noteq> 0" for x r
    using that by (cases x) (simp_all add: orDefault_def)
  have t: "truthy ?ms" "truthy ?ml" using default_operands by (simp_all add: d)
  have z: "truthy (JNum r) \<Longrightarrow> toNumber coerce (JNum r) \<noteq> Some 0" for r
    by (simp add: toNumber_def doubleOperand_nonzero)
  have z1: "\<forall>r. ?ms = JNum r \<longrightarrow> toNumber coerce ?ms \<noteq> Some 0" using t(1) z by metis
  have z2: "\<forall>r. ?ml = JNum r \<longrightarrow> toNumber coerce ?ml \<noteq> Some 0" using t(2) z by metis
  have f: "falsy x \<Longrightarrow> orDefault x (JNum r) = JNum r" for x r
    by (cases x) (simp_all add: orDefault_def falsy_def)
  have n1: "toNumber coerce (JNum (15 / 100)) = Some (nearestDouble (15 / 100))"
    using default_operands unfolding toNumber_def by simp
  have n2: "toNumber coerce (JNum 1000) = Some 1000"
    using default_operands unfolding toNumber_def by simp
  have a: "falsy (optProp parsed ''minSimilarity'') \<longrightarrow>
             ?ms = JNum (15 / 100) \<and> toNumber coerce ?ms = Some (nearestDouble (15 / 100))"
    using f n1 by metis
  have b: "falsy (optProp parsed ''maxLinks'') \<longrightarrow>
             ?ml = JNum 1000 \<and> toNumber coerce ?ml = Some 1000"
    using f n2 by metis
  have v: "falsy None" "falsy (Some JNull)" "falsy (Some (JBool False))"
    "falsy (Some (JNum 0))" "falsy (Some (JStr []))"
    by (simp_all add: falsy_def nearestDouble_def)
  have e: "parseOptions None = Inr (JNum (15 / 100), JNum 1000)"
    by (simp add: parseOptions_def getProp_def orDefault_def)
  from p a b t z1 z2 have "\<exists>minSimilarity maxLinks.
            parseOptions (Some parsed) = Inr (minSimilarity, maxLinks) \<and>
            (falsy (optProp parsed ''minSimilarity'') \<longrightarrow>
               minSimilarity = JNum (15 / 100) \<and>
               toNumber coerce minSimilarity = Some (nearestDouble (15 / 100))) \<and>
            (falsy (optProp parsed ''maxLinks'') \<longrightarrow>
               maxLinks = JNum 1000 \<and> toNumber coerce maxLinks = Some 1000) \<and>
            truthy minSimilarity \<and> truthy maxLinks \<and>
            (\<forall>r. minSimilarity = JNum r \<longrightarrow> toNumber coerce minSimilarity \<noteq> Some 0) \<and>
            (\<forall>r. maxLinks = JNum r \<longrightarrow> toNumber coerce maxLinks \<noteq> Some 0)"
    by blast
  with v e show ?thesis by blast
qed

theorem falsy_options_replaced_by_defaults_witness:
  "JObj [(''minSimilarity'', JNum 0), (''maxLinks'', JNum 0)] \<noteq> JNull \<and>
   falsy (optProp (JObj [(''minSimilarity'', JNum 0), (''maxLinks'', JNum 0)]) ''minSimilarity'') \<and>
   falsy (optProp (JObj [(''minSimilarity'', JNum 0), (''maxLinks'', JNum 0)]) ''maxLinks'') \<and>
   parseOptions (Some (JObj [(''minSimilarity'', JNum 0), (''maxLinks'', JNum 0)])) =
     Inr (JNum (15 / 100), JNum 1000) \<and>
   toNumber (\<lambda>v. None) (JNum (15 / 100)) \<noteq> Some 0 \<and>
   toNumber (\<lambda>v. None) (JNum 1000) \<noteq> Some 0"
proof -
  let ?b = "JObj [(''minSimilarity'', JNum 0), (''maxLinks'', JNum 0)]"
  have nn: "?b \<noteq> JNull" by simp
  have f1: "falsy (optProp ?b ''minSimilarity'')" by (simp add: falsy_def nearestDouble_def)
  have f2: "falsy (optProp ?b ''maxLinks'')" by (simp add: falsy_def nearestDouble_def)
  from falsy_options_replaced_by_defaults [OF nn, of "\<lambda>v. None"] f1 f2
  obtain ms ml where "parseOptions (Some ?b) = Inr (ms, ml)"
    and m1: "ms = JNum (15 / 100)" and m2: "ml = JNum 1000"
    and z1: "\<forall>r. ms = JNum r \<longrightarrow> toNumber (\<lambda>v. None) ms \<noteq> Some 0"
    and z2: "\<forall>r. ml = JNum r \<longrightarrow> toNumber (\<lambda>v. None) ml \<noteq> Some 0"
    by blast
  then have p: "parseOptions (Some ?b) = Inr (JNum (15 / 100), JNum 1000)" by simp
  from z1 m1 have a: "toNumber (\<lambda>v. None) (JNum (15 / 100)) \<noteq> Some 0" by blast
  from z2 m2 have b: "toNumber (\<lambda>v. None) (JNum 1000) \<noteq> Some 0" by blast
  from nn f1 f2 p a b show ?thesis by blast
qed

end
